theory Spec2Isabelle
  imports Main "HOL-Library.Sublist"
begin

section \<open>JavaScript strings and JSON values\<close>

text \<open>
  A JavaScript string is the list of its code units; the model keeps the code units
  below 256, which is what \<^typ>\<open>char\<close> holds. \<open>String.prototype.trim\<close> removes
  white space and line terminators at both ends; below 256 these are TAB, LF, VT, FF,
  CR, SPACE and NBSP.
\<close>

definition js_whitespace :: "char \<Rightarrow> bool" where
  "js_whitespace c \<longleftrightarrow>
     c \<in> set [CHR 0x09, CHR 0x0A, CHR 0x0B, CHR 0x0C, CHR 0x0D, CHR 0x20, CHR 0xA0]"

definition trim :: "string \<Rightarrow> string" where
  "trim s = rev (dropWhile js_whitespace (rev (dropWhile js_whitespace s)))"

text \<open>\<open>s.split('\n')\<close>: the pieces between line feeds; the empty string gives one empty piece.\<close>

fun split_nl :: "string \<Rightarrow> string list" where
  "split_nl [] = [[]]"
| "split_nl (c # cs) =
     (if c = CHR 0x0A then [] # split_nl cs
      else (case split_nl cs of [] \<Rightarrow> [[c]] | l # ls \<Rightarrow> (c # l) # ls))"

definition startsWith :: "string \<Rightarrow> string \<Rightarrow> bool" where
  "startsWith line p \<longleftrightarrow> take (length p) line = p"

definition slice :: "string \<Rightarrow> nat \<Rightarrow> string" where
  "slice line n = drop n line"

text \<open>
  The value \<open>JSON.parse\<close> returns. A number is kept as the text that
  \<open>Number.prototype.toString\<close> gives for it, since the program never computes with
  one. A property that is absent reads as \<open>undefined\<close>, which is \<open>None\<close> in
  \<open>jsval\<close>.
\<close>

datatype json =
    JNull
  | JBool bool
  | JNum string
  | JStr string
  | JArr "json list"
  | JObj "(string \<times> json) list"

type_synonym jsval = "json option"

datatype js_error = TypeError | SyntaxError | NetworkError | Error string

text \<open>
  \<open>data.key\<close> for the five keys the decoder reads (\<open>type\<close>, \<open>content\<close>,
  \<open>sources\<close>, \<open>web_sources\<close>, \<open>web_searched\<close>): none of them is a property of a
  built-in prototype, so only an object's own property answers. Reading a property of
  \<open>null\<close> throws.
\<close>

fun get :: "json \<Rightarrow> string \<Rightarrow> js_error + jsval" where
  "get JNull k = Inl TypeError"
| "get (JObj kvs) k = Inr (map_of kvs k)"
| "get _ k = Inr None"

text \<open>
  \<open>ToString\<close> of a parsed value, as string concatenation applies it. An array is
  joined with commas, \<open>null\<close> elements giving the empty text; an object gives
  \<open>[object Object]\<close>, unless it has an own property \<open>toString\<close>, which JSON can only
  fill with a value that is not callable: then the conversion throws.
\<close>

fun js_to_string :: "json \<Rightarrow> js_error + string" where
  "js_to_string JNull = Inr ''null''"
| "js_to_string (JBool b) = Inr (if b then ''true'' else ''false'')"
| "js_to_string (JNum t) = Inr t"
| "js_to_string (JStr t) = Inr t"
| "js_to_string (JArr xs) =
     (case those (map (\<lambda>x. case x of JNull \<Rightarrow> Some []
                                 | _ \<Rightarrow> (case js_to_string x of Inl e \<Rightarrow> None | Inr t \<Rightarrow> Some t)) xs) of
        None \<Rightarrow> Inl TypeError
      | Some ts \<Rightarrow> Inr (concat (case ts of [] \<Rightarrow> [] | t # ts' \<Rightarrow> t # map (\<lambda>u. '','' @ u) ts')))"
| "js_to_string (JObj kvs) =
     (if map_of kvs ''toString'' = None then Inr ''[object Object]'' else Inl TypeError)"

text \<open>\<open>acc += v\<close> for a string \<open>acc\<close>: \<open>undefined\<close> appends the text \<open>undefined\<close>.\<close>

definition add_text :: "string \<Rightarrow> jsval \<Rightarrow> js_error + string" where
  "add_text acc v =
     (case v of
        None \<Rightarrow> Inr (acc @ ''undefined'')
      | Some j \<Rightarrow> (case js_to_string j of Inl e \<Rightarrow> Inl e | Inr t \<Rightarrow> Inr (acc @ t)))"

section \<open>The streaming wellness chat screen\<close>

subsection \<open>State\<close>

text \<open>
  A transcript entry is \<open>{role: "user", content}\<close> or the object the \<open>done\<close> branch
  builds, whose \<open>thinking\<close> is a string or \<open>null\<close> (\<open>None\<close> here).
\<close>

datatype message =
    UserMessage (msg_content: string)
  | AssistantMessage (msg_content: string) (msg_thinking: "string option")
      (msg_sources: jsval) (msg_webSources: jsval) (msg_webSearched: jsval)

record streaming_msg =
  role :: string
  thinking :: string
  content :: string
  thinkingComplete :: bool
  sources :: jsval
  webSources :: jsval
  webSearched :: jsval

record topic =
  topic_id :: string
  icon :: string
  label :: string

datatype toast = ToastError string | ToastSuccess string

datatype request = GetWellnessTopics | PostChatStream (message: string) (use_web_search: bool)

text \<open>
  The five \<open>useState\<close> cells of \<open>WellnessChat\<close>, and the two effects that leave the
  component: the toasts shown and the requests issued, in order.
\<close>

record app_state =
  messages :: "message list"
  inputMessage :: string
  isLoading :: bool
  topics :: "topic list"
  streamingMessage :: "streaming_msg option"
  toasts :: "toast list"
  requests :: "request list"

definition initial_state :: app_state where
  "initial_state = \<lparr>messages = [], inputMessage = [], isLoading = False, topics = [],
     streamingMessage = None, toasts = [], requests = []\<rparr>"

text \<open>The draft \<open>sendMessage\<close> starts from (\<open>currentStreamingMsg\<close>).\<close>

definition new_streaming_msg :: streaming_msg where
  "new_streaming_msg = \<lparr>role = ''assistant'', thinking = [], content = [],
     thinkingComplete = False, sources = Some JNull, webSources = Some JNull,
     webSearched = Some (JBool False)\<rparr>"

text \<open>
  The object the updater of the \<open>done\<close> branch builds from the draft;
  \<open>thinking || null\<close> is \<open>null\<close> for the empty string.
\<close>

definition finalize :: "streaming_msg \<Rightarrow> message" where
  "finalize cur = AssistantMessage (content cur)
     (if thinking cur = [] then None else Some (thinking cur))
     (sources cur) (webSources cur) (webSearched cur)"

subsection \<open>Decoding one event\<close>

text \<open>
  The closure of a send holds the local draft \<open>currentStreamingMsg\<close>, an object that
  the branches change in place. Every \<open>setStreamingMessage\<close> is given a copy of the
  draft, or \<open>null\<close>: a value, fixed at the call. The \<open>done\<close> branch gives
  \<open>setMessages\<close> a function, \<open>prev => [...prev, {content: currentStreamingMsg.content, ...}]\<close>:
  React puts it in its queue and calls it when it next renders, and only then is the
  draft read. The decoder therefore works on three things: the draft, the component
  state, and the number of these updaters that are queued and have not run.
\<close>

type_synonym send_state = "streaming_msg \<times> app_state \<times> nat"

text \<open>
  React renders: each queued updater appends the Message built from the draft as it is
  now.
\<close>

definition render :: "send_state \<Rightarrow> send_state" where
  "render cs =
     (case cs of (cur, s, n) \<Rightarrow>
        (cur, s\<lparr>messages := messages s @ replicate n (finalize cur)\<rparr>, 0))"

text \<open>
  \<open>data.content?.substring(0, 20)\<close> in the log line of the streaming loop: \<open>?.\<close> stops
  at \<open>undefined\<close> and \<open>null\<close>, a string has the method, and any other value has no
  \<open>substring\<close> to call.
\<close>

definition log_content :: "jsval \<Rightarrow> js_error + unit" where
  "log_content v =
     (case v of None \<Rightarrow> Inr () | Some JNull \<Rightarrow> Inr () | Some (JStr t) \<Rightarrow> Inr ()
      | Some _ \<Rightarrow> Inl TypeError)"

text \<open>The body of the \<open>try\<close> around one parsed event in the streaming loop.\<close>

definition stream_event :: "json \<Rightarrow> send_state \<Rightarrow> js_error + send_state" where
  "stream_event data cs =
     (case cs of (cur, s, n) \<Rightarrow>
      (case get data ''type'' of Inl e \<Rightarrow> Inl e | Inr ty \<Rightarrow>
      (case get data ''content'' of Inl e \<Rightarrow> Inl e | Inr c \<Rightarrow>
      (case log_content c of Inl e \<Rightarrow> Inl e | Inr _ \<Rightarrow>
        if ty = Some (JStr ''thinking_start'') then Inr (cur, s, n)
        else if ty = Some (JStr ''thinking'') then
          (case add_text (thinking cur) c of Inl e \<Rightarrow> Inl e
           | Inr t \<Rightarrow> Inr (cur\<lparr>thinking := t\<rparr>,
                           s\<lparr>streamingMessage := Some (cur\<lparr>thinking := t\<rparr>)\<rparr>, n))
        else if ty = Some (JStr ''thinking_end'') then
          Inr (cur\<lparr>thinkingComplete := True\<rparr>,
               s\<lparr>streamingMessage := Some (cur\<lparr>thinkingComplete := True\<rparr>)\<rparr>, n)
        else if ty = Some (JStr ''response_start'') then Inr (cur, s, n)
        else if ty = Some (JStr ''response'') then
          (case add_text (content cur) c of Inl e \<Rightarrow> Inl e
           | Inr t \<Rightarrow> Inr (cur\<lparr>content := t\<rparr>,
                           s\<lparr>streamingMessage := Some (cur\<lparr>content := t\<rparr>)\<rparr>, n))
        else if ty = Some (JStr ''response_end'') then Inr (cur, s, n)
        else if ty = Some (JStr ''metadata'') then
          (case (get data ''sources'', get data ''web_sources'', get data ''web_searched'') of
             (Inr so, Inr ws, Inr wd) \<Rightarrow>
               Inr (cur\<lparr>sources := so, webSources := ws, webSearched := wd\<rparr>,
                    s\<lparr>streamingMessage :=
                        Some (cur\<lparr>sources := so, webSources := ws, webSearched := wd\<rparr>)\<rparr>, n)
           | _ \<Rightarrow> Inl TypeError)
        else if ty = Some (JStr ''done'') then
          Inr (cur, s\<lparr>streamingMessage := None\<rparr>, Suc n)
        else Inr (cur, s, n)))))"

text \<open>The same body in the fallback loop: no log line, no branch for the three markers.\<close>

definition fallback_event :: "json \<Rightarrow> send_state \<Rightarrow> js_error + send_state" where
  "fallback_event data cs =
     (case cs of (cur, s, n) \<Rightarrow>
      (case get data ''type'' of Inl e \<Rightarrow> Inl e | Inr ty \<Rightarrow>
        if ty = Some (JStr ''thinking'') then
          (case get data ''content'' of Inl e \<Rightarrow> Inl e | Inr c \<Rightarrow>
           (case add_text (thinking cur) c of Inl e \<Rightarrow> Inl e
            | Inr t \<Rightarrow> Inr (cur\<lparr>thinking := t\<rparr>,
                            s\<lparr>streamingMessage := Some (cur\<lparr>thinking := t\<rparr>)\<rparr>, n)))
        else if ty = Some (JStr ''thinking_end'') then
          Inr (cur\<lparr>thinkingComplete := True\<rparr>,
               s\<lparr>streamingMessage := Some (cur\<lparr>thinkingComplete := True\<rparr>)\<rparr>, n)
        else if ty = Some (JStr ''response'') then
          (case get data ''content'' of Inl e \<Rightarrow> Inl e | Inr c \<Rightarrow>
           (case add_text (content cur) c of Inl e \<Rightarrow> Inl e
            | Inr t \<Rightarrow> Inr (cur\<lparr>content := t\<rparr>,
                            s\<lparr>streamingMessage := Some (cur\<lparr>content := t\<rparr>)\<rparr>, n)))
        else if ty = Some (JStr ''metadata'') then
          (case (get data ''sources'', get data ''web_sources'', get data ''web_searched'') of
             (Inr so, Inr ws, Inr wd) \<Rightarrow>
               Inr (cur\<lparr>sources := so, webSources := ws, webSearched := wd\<rparr>,
                    s\<lparr>streamingMessage :=
                        Some (cur\<lparr>sources := so, webSources := ws, webSearched := wd\<rparr>)\<rparr>, n)
           | _ \<Rightarrow> Inl TypeError)
        else if ty = Some (JStr ''done'') then
          Inr (cur, s\<lparr>streamingMessage := None\<rparr>, Suc n)
        else Inr (cur, s, n)))"

subsection \<open>Decoding lines and chunks\<close>

text \<open>
  \<open>JSON.parse\<close> belongs to the runtime and is a parameter of the decoder: \<open>None\<close> is
  its \<open>SyntaxError\<close>. The \<open>catch\<close> around one line logs the error and goes on with the
  state as it was: every branch throws, if at all, before its first assignment.
\<close>

type_synonym json_parse = "string \<Rightarrow> json option"

definition stream_line :: "json_parse \<Rightarrow> string \<Rightarrow> send_state \<Rightarrow> send_state" where
  "stream_line parse line cs =
     (if startsWith line ''data: '' then
        (case parse (slice line 6) of
           None \<Rightarrow> cs
         | Some data \<Rightarrow> (case stream_event data cs of Inl e \<Rightarrow> cs | Inr cs' \<Rightarrow> cs'))
      else cs)"

definition fallback_line :: "json_parse \<Rightarrow> string \<Rightarrow> send_state \<Rightarrow> send_state" where
  "fallback_line parse line cs =
     (if startsWith line ''data: '' then
        (case parse (slice line 6) of
           None \<Rightarrow> cs
         | Some data \<Rightarrow> (case fallback_event data cs of Inl e \<Rightarrow> cs | Inr cs' \<Rightarrow> cs'))
      else cs)"

text \<open>One turn of the \<open>while\<close> loop: the chunk is split and its lines decoded in order.\<close>

definition stream_chunk :: "json_parse \<Rightarrow> string \<Rightarrow> send_state \<Rightarrow> send_state" where
  "stream_chunk parse chunk cs = fold (stream_line parse) (split_nl chunk) cs"

text \<open>
  How a block ends: it returns, or it throws with the state the throw finds.
\<close>

datatype 'a completion = Returned 'a | Threw js_error 'a

text \<open>
  The \<open>while (true)\<close> loop over \<open>reader.read()\<close>. The chunks of one response, each
  already decoded to text, come in bursts. Within a burst every \<open>read\<close> finds its chunk
  waiting, and the loop decodes it in the same task as the chunk before, so that React
  does not render in between; after a burst the loop waits for the network, and React
  renders. After the last burst the reader reports \<open>done\<close> (the loop breaks) or
  rejects (\<open>ok\<close> is false). A response that never closes has no exit and is not a
  value of this model.
\<close>

fun read_loop :: "json_parse \<Rightarrow> string list list \<Rightarrow> bool \<Rightarrow> send_state \<Rightarrow> send_state completion" where
  "read_loop parse [] ok cs = (if ok then Returned cs else Threw NetworkError cs)"
| "read_loop parse (burst # bursts) ok cs =
     read_loop parse bursts ok (render (fold (stream_chunk parse) burst cs))"

subsection \<open>sendMessage\<close>

text \<open>
  What the network does to one send: \<open>fetch\<close> rejects; the response is not OK; a
  reader is obtained and delivers bursts of chunks; or \<open>getReader\<close> throws and
  \<open>response.text()\<close> gives the whole payload (\<open>Some\<close>) or rejects (\<open>None\<close>). The
  fallback decodes the whole payload in one task.
\<close>

datatype fetch_outcome =
    FetchRejected
  | ResponseNotOk
  | ReaderStream "string list list" bool
  | NoReader "string option"

definition try_block :: "json_parse \<Rightarrow> fetch_outcome \<Rightarrow> send_state \<Rightarrow> send_state completion" where
  "try_block parse net cs =
     (case net of
        FetchRejected \<Rightarrow> Threw NetworkError cs
      | ResponseNotOk \<Rightarrow> Threw (Error ''Failed to get response'') cs
      | ReaderStream bursts ok \<Rightarrow> read_loop parse bursts ok cs
      | NoReader None \<Rightarrow> Threw NetworkError cs
      | NoReader (Some full) \<Rightarrow> Returned (fold (fallback_line parse) (split_nl full) cs))"

definition catch_block :: "app_state \<Rightarrow> app_state" where
  "catch_block s = s\<lparr>toasts := toasts s @ [ToastError ''Unable to get response. Please try again.''],
     streamingMessage := None\<rparr>"

definition finally_block :: "app_state \<Rightarrow> app_state" where
  "finally_block s = s\<lparr>isLoading := False\<rparr>"

text \<open>
  The argument \<open>sendMessage\<close> is called with: nothing or \<open>undefined\<close> (the default
  \<open>inputMessage\<close> takes its place), a string, or an object that is not a string, which
  has no \<open>trim\<close> to call. The state a send ends in is the one React renders once the
  function has run to its end: the updaters still queued run then.
\<close>

datatype send_arg = ArgUndefined | ArgString string | ArgObject

definition sendMessage :: "json_parse \<Rightarrow> send_arg \<Rightarrow> fetch_outcome \<Rightarrow> app_state \<Rightarrow> js_error + app_state" where
  "sendMessage parse arg net s =
     (case (case arg of ArgUndefined \<Rightarrow> Inr (inputMessage s) | ArgString t \<Rightarrow> Inr t
                      | ArgObject \<Rightarrow> Inl TypeError) of
        Inl e \<Rightarrow> Inl e
      | Inr messageText \<Rightarrow>
          if trim messageText = [] then Inr s
          else
            let s1 = s\<lparr>messages := messages s @ [UserMessage messageText],
                       inputMessage := [], isLoading := True,
                       streamingMessage := Some new_streaming_msg,
                       requests := requests s @ [PostChatStream messageText False]\<rparr>
            in Inr (fst (snd (render
                 (case try_block parse net (new_streaming_msg, s1, 0) of
                    Returned (cur, s2, n) \<Rightarrow> (cur, finally_block s2, n)
                  | Threw e (cur, s2, n) \<Rightarrow> (cur, finally_block (catch_block s2), n))))))"

subsection \<open>The other handlers\<close>

text \<open>
  \<open>topicQuestions[topic.id]\<close>: an own property gives its question; a name that
  \<open>Object.prototype\<close> defines gives that built-in member, an object; any other name
  gives \<open>undefined\<close>.
\<close>

definition topicQuestions :: "(string \<times> string) list" where
  "topicQuestions =
     [(''nutrition'', ''What are some general healthy eating guidelines?''),
      (''exercise'', ''How much exercise should I get weekly?''),
      (''sleep'', ''What are good sleep hygiene practices?''),
      (''stress'', ''What are some healthy ways to manage stress?''),
      (''hydration'', ''How much water should I drink daily?''),
      (''checkup'', ''How often should I get routine health checkups?'')]"

definition object_prototype_keys :: "string list" where
  "object_prototype_keys =
     [''constructor'', ''hasOwnProperty'', ''isPrototypeOf'', ''propertyIsEnumerable'',
      ''toLocaleString'', ''toString'', ''valueOf'', ''__proto__'', ''__defineGetter__'',
      ''__defineSetter__'', ''__lookupGetter__'', ''__lookupSetter__'']"

definition topic_question :: "string \<Rightarrow> send_arg" where
  "topic_question k =
     (case map_of topicQuestions k of
        Some q \<Rightarrow> ArgString q
      | None \<Rightarrow> if k \<in> set object_prototype_keys then ArgObject else ArgUndefined)"

definition handleTopicClick :: "json_parse \<Rightarrow> topic \<Rightarrow> fetch_outcome \<Rightarrow> app_state \<Rightarrow> js_error + app_state" where
  "handleTopicClick parse tp net s = sendMessage parse (topic_question (topic_id tp)) net s"

definition handleKeyPress :: "json_parse \<Rightarrow> string \<Rightarrow> bool \<Rightarrow> fetch_outcome \<Rightarrow> app_state \<Rightarrow> js_error + app_state" where
  "handleKeyPress parse key shiftKey net s =
     (if key = ''Enter'' \<and> \<not> shiftKey then sendMessage parse ArgUndefined net s else Inr s)"

definition clearChat :: "app_state \<Rightarrow> app_state" where
  "clearChat s = s\<lparr>messages := [], streamingMessage := None,
     toasts := toasts s @ [ToastSuccess ''Conversation cleared'']\<rparr>"

text \<open>
  \<open>fetchWellnessTopics\<close>: the request is issued; the list of the answer is stored, and a
  failure (\<open>None\<close>) is logged and leaves the topics as they were.
\<close>

definition fetchWellnessTopics :: "topic list option \<Rightarrow> app_state \<Rightarrow> app_state" where
  "fetchWellnessTopics answer s =
     (case answer of
        None \<Rightarrow> s\<lparr>requests := requests s @ [GetWellnessTopics]\<rparr>
      | Some ts \<Rightarrow> s\<lparr>topics := ts, requests := requests s @ [GetWellnessTopics]\<rparr>)"

text \<open>
  Everything that changes the state of the screen: the send button, a key in the input,
  a topic card, the clear button, typing (\<open>onChange\<close>), and the fetch at mount. A
  handler that throws leaves the state as it found it.
\<close>

datatype operation =
    OpSend fetch_outcome
  | OpKeyPress string bool fetch_outcome
  | OpTopicClick topic fetch_outcome
  | OpClear
  | OpInput string
  | OpFetchTopics "topic list option"

definition settle :: "app_state \<Rightarrow> js_error + app_state \<Rightarrow> app_state" where
  "settle s r = (case r of Inl e \<Rightarrow> s | Inr s' \<Rightarrow> s')"

fun run_op :: "json_parse \<Rightarrow> operation \<Rightarrow> app_state \<Rightarrow> app_state" where
  "run_op parse (OpSend net) s = settle s (sendMessage parse ArgUndefined net s)"
| "run_op parse (OpKeyPress key shiftKey net) s = settle s (handleKeyPress parse key shiftKey net s)"
| "run_op parse (OpTopicClick tp net) s = settle s (handleTopicClick parse tp net s)"
| "run_op parse OpClear s = clearChat s"
| "run_op parse (OpInput t) s = s\<lparr>inputMessage := t\<rparr>"
| "run_op parse (OpFetchTopics answer) s = fetchWellnessTopics answer s"

section \<open>The static chat shell\<close>

text \<open>
  A message as \<open>handleSend\<close> hands it to \<open>appendMsg\<close>; \<open>position\<close> is absent in the
  reply. \<open>setTimeout\<close> registers the message its callback appends, with the delay in
  milliseconds; the shell performs no other effect.
\<close>

record chat_msg =
  msg_type :: string
  msg_text :: string
  position :: "string option"

record shell_state =
  shell_messages :: "chat_msg list"
  timers :: "(nat \<times> chat_msg) list"

definition handleSend :: "string \<Rightarrow> string \<Rightarrow> shell_state \<Rightarrow> shell_state" where
  "handleSend type val s =
     (if type = ''text'' \<and> trim val \<noteq> [] then
        s\<lparr>shell_messages := shell_messages s @
             [\<lparr>msg_type = ''text'', msg_text = val, position = Some ''right''\<rparr>],
          timers := timers s @
             [(1000, \<lparr>msg_type = ''text'',
                      msg_text = ''Hello! I'm your health assistant. How can I help you today?'',
                      position = None\<rparr>)]\<rparr>
      else s)"

text \<open>The oldest timer runs out: its callback appends its message.\<close>

definition timer_fires :: "shell_state \<Rightarrow> shell_state" where
  "timer_fires s =
     (case timers s of
        [] \<Rightarrow> s
      | (delay, m) # rest \<Rightarrow> s\<lparr>shell_messages := shell_messages s @ [m], timers := rest\<rparr>)"

section \<open>Notions used in the statements\<close>

text \<open>
  The event a line carries, if any: the payload of a \<open>data: \<close> line that parses. The
  events of a stream are those of the lines of its chunks, each chunk split by itself,
  in the order the loop meets them.
\<close>

definition decode :: "json_parse \<Rightarrow> string \<Rightarrow> json option" where
  "decode parse line = (if startsWith line ''data: '' then parse (slice line 6) else None)"

definition stream_events :: "json_parse \<Rightarrow> string list \<Rightarrow> json list" where
  "stream_events parse chunks = List.map_filter (decode parse) (concat (map split_nl chunks))"

text \<open>One event with the \<open>catch\<close> around it: a throw leaves the state as it was.\<close>

definition apply_stream :: "json \<Rightarrow> send_state \<Rightarrow> send_state" where
  "apply_stream data cs = (case stream_event data cs of Inl e \<Rightarrow> cs | Inr cs' \<Rightarrow> cs')"

definition apply_fallback :: "json \<Rightarrow> send_state \<Rightarrow> send_state" where
  "apply_fallback data cs = (case fallback_event data cs of Inl e \<Rightarrow> cs | Inr cs' \<Rightarrow> cs')"

text \<open>A property of an event, \<open>undefined\<close> when it cannot be read.\<close>

definition field_of :: "json \<Rightarrow> string \<Rightarrow> jsval" where
  "field_of data k = (case get data k of Inl e \<Rightarrow> None | Inr v \<Rightarrow> v)"

definition is_event :: "string \<Rightarrow> json \<Rightarrow> bool" where
  "is_event ty data \<longleftrightarrow> get data ''type'' = Inr (Some (JStr ty))"

definition text_content :: "json \<Rightarrow> string option" where
  "text_content data = (case get data ''content'' of Inr (Some (JStr c)) \<Rightarrow> Some c | _ \<Rightarrow> None)"

text \<open>An event of the given type whose \<open>content\<close> is a string.\<close>

definition text_event :: "string \<Rightarrow> json \<Rightarrow> bool" where
  "text_event ty data \<longleftrightarrow> is_event ty data \<and> text_content data \<noteq> None"

text \<open>The contents of the events of one type, concatenated in arrival order.\<close>

definition contents_of :: "string \<Rightarrow> json list \<Rightarrow> string" where
  "contents_of ty evs =
     concat (map (\<lambda>d. case text_content d of None \<Rightarrow> [] | Some c \<Rightarrow> c) (filter (is_event ty) evs))"

text \<open>
  The log line of the streaming loop does not throw at \<open>data.content\<close>: the content is
  absent, \<open>null\<close> or a string.
\<close>

definition loggable :: "json \<Rightarrow> bool" where
  "loggable data \<longleftrightarrow> (case get data ''content'' of Inl e \<Rightarrow> True | Inr v \<Rightarrow> log_content v = Inr ())"

text \<open>An event of none of the five types that have an effect.\<close>

definition quiet_event :: "json \<Rightarrow> bool" where
  "quiet_event data \<longleftrightarrow>
     \<not> is_event ''thinking'' data \<and> \<not> is_event ''thinking_end'' data \<and>
     \<not> is_event ''response'' data \<and> \<not> is_event ''metadata'' data \<and> \<not> is_event ''done'' data"


text \<open>The text a send works on, when its argument has one.\<close>

definition send_text :: "send_arg \<Rightarrow> app_state \<Rightarrow> string option" where
  "send_text arg s =
     (case arg of ArgUndefined \<Rightarrow> Some (inputMessage s) | ArgString t \<Rightarrow> Some t
      | ArgObject \<Rightarrow> None)"

text \<open>The state a block ends with, returned or thrown.\<close>

fun outcome :: "send_state completion \<Rightarrow> send_state" where
  "outcome (Returned cs) = cs"
| "outcome (Threw e cs) = cs"

text \<open>
  The state a send ends in, from the way its \<open>try\<close> block ended: \<open>catch\<close> and
  \<open>finally\<close> run, and then React renders.
\<close>

definition send_result :: "send_state completion \<Rightarrow> app_state" where
  "send_result r =
     fst (snd (render
       (case r of
          Returned (cur, s2, n) \<Rightarrow> (cur, finally_block s2, n)
        | Threw e (cur, s2, n) \<Rightarrow> (cur, finally_block (catch_block s2), n))))"

text \<open>
  Between two states of a send, the component state differs at most in the displayed
  draft and in the transcript, and the transcript has only grown.
\<close>

definition framed :: "send_state \<Rightarrow> send_state \<Rightarrow> bool" where
  "framed cs cs' \<longleftrightarrow>
     fst (snd cs') = (fst (snd cs))\<lparr>streamingMessage := streamingMessage (fst (snd cs')),
        messages := messages (fst (snd cs'))\<rparr> \<and>
     prefix (messages (fst (snd cs))) (messages (fst (snd cs')))"

text \<open>The number of updaters of the \<open>done\<close> branch that are queued.\<close>

definition queued :: "send_state \<Rightarrow> nat" where
  "queued cs = snd (snd cs)"

text \<open>
  The streaming loop seen on events: the events of each burst are applied in order, and
  React renders after each burst.
\<close>

definition paced :: "json list list \<Rightarrow> send_state \<Rightarrow> send_state" where
  "paced evss cs = fold (\<lambda>evs cs. render (fold apply_stream evs cs)) evss cs"


text \<open>
  The \<open>done\<close> events among the given ones that the streaming loop does not skip, and
  the length the transcript will have once the queued updaters have run.
\<close>

definition done_count :: "json list \<Rightarrow> nat" where
  "done_count evs = length (filter (\<lambda>d. is_event ''done'' d \<and> loggable d) evs)"

definition total :: "send_state \<Rightarrow> nat" where
  "total cs = length (messages (fst (snd cs))) + queued cs"

subsection \<open>Inputs of the examples\<close>

text \<open>
  \<open>JSON.parse\<close> on the payloads the examples use. The table answers \<open>None\<close> for any
  other text; the examples hand it, besides the listed payloads, only texts that are
  not JSON.
\<close>

definition json_parse_table :: "(string \<times> json) list" where
  \<open>json_parse_table =
     [(''{"type":"response","content":"Hi"}'',
         JObj [(''type'', JStr ''response''), (''content'', JStr ''Hi'')]),
      (''{"type":"response","content":" there"}'',
         JObj [(''type'', JStr ''response''), (''content'', JStr '' there'')]),
      (''{"type":"thinking","content":"Rest matters."}'',
         JObj [(''type'', JStr ''thinking''), (''content'', JStr ''Rest matters.'')]),
      (''{"type":"thinking","content":""}'',
         JObj [(''type'', JStr ''thinking''), (''content'', JStr [])]),
      (''{"type":"metadata","sources":["CDC"],"web_sources":[],"web_searched":true}'',
         JObj [(''type'', JStr ''metadata''), (''sources'', JArr [JStr ''CDC'']),
               (''web_sources'', JArr []), (''web_searched'', JBool True)]),
      (''{"type":"metadata","sources":["WHO"]}'',
         JObj [(''type'', JStr ''metadata''), (''sources'', JArr [JStr ''WHO''])]),
      (''{"type":"metadata","content":7,"sources":["WHO"]}'',
         JObj [(''type'', JStr ''metadata''), (''content'', JNum ''7''),
               (''sources'', JArr [JStr ''WHO''])]),
      (''{"type":"response_end"}'', JObj [(''type'', JStr ''response_end'')]),
      (''{"type":"done","content":7}'',
         JObj [(''type'', JStr ''done''), (''content'', JNum ''7'')]),
      (''{"type":"done"}'', JObj [(''type'', JStr ''done'')])]\<close>

definition example_parse :: json_parse where
  "example_parse payload = map_of json_parse_table payload"

text \<open>A payload on a line of its own, as the protocol sends it.\<close>

definition data_line :: "string \<Rightarrow> string" where
  "data_line payload = ''data: '' @ payload @ [CHR 0x0A]"
section \<open>Lemmas about the decoder\<close>


lemma stream_line_decode:
  "stream_line parse line cs = (case decode parse line of None \<Rightarrow> cs | Some d \<Rightarrow> apply_stream d cs)"
  by (simp add: stream_line_def decode_def apply_stream_def split: option.splits)

lemma fold_stream_line:
  "fold (stream_line parse) ls cs = fold apply_stream (List.map_filter (decode parse) ls) cs"
  by (induction ls arbitrary: cs) (simp_all add: stream_line_decode map_filter_simps split: option.splits)

lemma fold_stream_chunk:
  "fold (stream_chunk parse) chunks cs = fold (stream_line parse) (concat (map split_nl chunks)) cs"
  by (induction chunks arbitrary: cs) (simp_all add: stream_chunk_def)

lemma burst_events:
  "fold (stream_chunk parse) burst cs = fold apply_stream (stream_events parse burst) cs"
  by (simp add: fold_stream_chunk fold_stream_line stream_events_def)

lemma read_loop_paced:
  "read_loop parse bursts ok cs =
     (if ok then Returned (paced (map (stream_events parse) bursts) cs)
      else Threw NetworkError (paced (map (stream_events parse) bursts) cs))"
  by (induction bursts arbitrary: cs) (simp_all add: paced_def burst_events)

lemma map_filter_append:
  "List.map_filter f (xs @ ys) = List.map_filter f xs @ List.map_filter f ys"
  by (simp add: List.map_filter_def)

lemma stream_events_append:
  "stream_events parse (xs @ ys) = stream_events parse xs @ stream_events parse ys"
  by (simp add: stream_events_def map_filter_append)

lemma stream_events_concat:
  "concat (map (stream_events parse) bursts) = stream_events parse (concat bursts)"
proof (induction bursts)
  case Nil
  then show ?case by (simp add: stream_events_def map_filter_simps)
next
  case (Cons b bs)
  then show ?case by (simp add: stream_events_append)
qed

subsection \<open>Rendering\<close>

lemma render_none: "queued cs = 0 \<Longrightarrow> render cs = cs"
  by (cases cs) (simp add: render_def queued_def)

lemma render_twice: "render (render cs) = render cs"
  by (cases cs) (simp add: render_def)

lemma queued_render: "queued (render cs) = 0"
  by (cases cs) (simp add: render_def queued_def)

lemma paced_Cons: "paced (evs # evss) cs = paced evss (render (fold apply_stream evs cs))"
  by (simp add: paced_def)

lemma paced_Nil: "paced [] cs = cs"
  by (simp add: paced_def)


lemma text_contentD: "text_content d = Some c \<Longrightarrow> get d ''content'' = Inr (Some (JStr c))"
  by (auto simp: text_content_def split: sum.splits option.splits json.splits)

lemma apply_thinking:
  assumes "is_event ''thinking'' d" "text_content d = Some c"
  shows "apply_stream d (cur, s, n) =
     (cur\<lparr>thinking := thinking cur @ c\<rparr>,
      s\<lparr>streamingMessage := Some (cur\<lparr>thinking := thinking cur @ c\<rparr>)\<rparr>, n)"
  using assms text_contentD[OF assms(2)]
  by (simp add: apply_stream_def stream_event_def is_event_def log_content_def add_text_def)

lemma apply_response:
  assumes "is_event ''response'' d" "text_content d = Some c"
  shows "apply_stream d (cur, s, n) =
     (cur\<lparr>content := content cur @ c\<rparr>,
      s\<lparr>streamingMessage := Some (cur\<lparr>content := content cur @ c\<rparr>)\<rparr>, n)"
  using assms text_contentD[OF assms(2)]
  by (simp add: apply_stream_def stream_event_def is_event_def log_content_def add_text_def)

lemma is_event_not_null: "is_event ty d \<Longrightarrow> d \<noteq> JNull"
  by (auto simp: is_event_def)

lemma get_field: "d \<noteq> JNull \<Longrightarrow> get d k = Inr (field_of d k)"
  by (cases d) (simp_all add: field_of_def)

lemma loggable_field: "d \<noteq> JNull \<Longrightarrow> loggable d \<Longrightarrow> log_content (field_of d ''content'') = Inr ()"
  by (simp add: loggable_def get_field)

lemma is_event_field: "is_event ty d \<Longrightarrow> field_of d ''type'' = Some (JStr ty)"
  by (simp add: is_event_def field_of_def)

lemma apply_done:
  assumes "is_event ''done'' d" "loggable d"
  shows "apply_stream d (cur, s, n) = (cur, s\<lparr>streamingMessage := None\<rparr>, Suc n)"
proof -
  note n = is_event_not_null[OF assms(1)]
  show ?thesis
    by (simp add: apply_stream_def stream_event_def get_field[OF n] is_event_field[OF assms(1)]
        loggable_field[OF n assms(2)])
qed

lemma fold_text_events:
  "\<forall>d\<in>set evs. text_event ''thinking'' d \<or> text_event ''response'' d \<Longrightarrow>
   fold apply_stream evs (cur, s, n) =
     (cur\<lparr>thinking := thinking cur @ contents_of ''thinking'' evs,
          content := content cur @ contents_of ''response'' evs\<rparr>,
      if evs = [] then s
      else s\<lparr>streamingMessage := Some (cur\<lparr>thinking := thinking cur @ contents_of ''thinking'' evs,
          content := content cur @ contents_of ''response'' evs\<rparr>)\<rparr>, n)"
proof (induction evs arbitrary: cur s)
  case Nil
  then show ?case by (simp add: contents_of_def)
next
  case (Cons d evs)
  from Cons.prems have rest: "\<forall>d\<in>set evs. text_event ''thinking'' d \<or> text_event ''response'' d"
    by simp
  from Cons.prems have "text_event ''thinking'' d \<or> text_event ''response'' d" by simp
  then show ?case
  proof
    assume t: "text_event ''thinking'' d"
    then obtain c where c: "text_content d = Some c" and ty: "is_event ''thinking'' d"
      by (auto simp: text_event_def)
    have nr: "\<not> is_event ''response'' d" using ty by (simp add: is_event_def)
    show ?thesis
      using Cons.IH[OF rest] by (simp add: apply_thinking[OF ty c] contents_of_def c ty nr)
  next
    assume t: "text_event ''response'' d"
    then obtain c where c: "text_content d = Some c" and ty: "is_event ''response'' d"
      by (auto simp: text_event_def)
    have nr: "\<not> is_event ''thinking'' d" using ty by (simp add: is_event_def)
    show ?thesis
      using Cons.IH[OF rest] by (simp add: apply_response[OF ty c] contents_of_def c ty nr)
  qed
qed



lemma apply_quiet: "quiet_event d \<Longrightarrow> apply_stream d cs = cs"
  by (cases cs) (auto simp: quiet_event_def apply_stream_def stream_event_def is_event_def split: sum.splits)

lemma fold_quiet: "\<forall>d\<in>set evs. quiet_event d \<Longrightarrow> fold apply_stream evs cs = cs"
  by (induction evs) (simp_all add: apply_quiet)






lemma split_nl_not_Nil: "split_nl xs \<noteq> []"
  by (induction xs) (auto split: list.splits)

lemma split_nl_no_nl: "CHR 0x0A \<notin> set f \<Longrightarrow> split_nl f = [f]"
  by (induction f) auto

lemma split_nl_append: "split_nl (a @ CHR 0x0A # b) = split_nl a @ split_nl b"
  by (induction a) (auto split: list.splits simp: split_nl_not_Nil)

lemma split_nl_frag: "CHR 0x0A \<notin> set f \<Longrightarrow> split_nl (a @ CHR 0x0A # f) = split_nl a @ [f]"
  by (simp add: split_nl_append split_nl_no_nl)

lemma fold_filter_id:
  "(\<And>x. \<not> P x \<Longrightarrow> f x = (\<lambda>s. s)) \<Longrightarrow> fold f xs s = fold f (filter P xs) s"
  by (induction xs arbitrary: s) simp_all



lemma fallback_line_decode:
  "fallback_line parse line cs = (case decode parse line of None \<Rightarrow> cs | Some d \<Rightarrow> apply_fallback d cs)"
  by (simp add: fallback_line_def decode_def apply_fallback_def split: option.splits)

lemma fold_fallback_line:
  "fold (fallback_line parse) ls cs = fold apply_fallback (List.map_filter (decode parse) ls) cs"
  by (induction ls arbitrary: cs) (simp_all add: fallback_line_decode map_filter_simps split: option.splits)






subsection \<open>Lines without effect\<close>

lemma not_data_line: "\<not> startsWith line ''data: '' \<Longrightarrow> stream_line parse line cs = cs"
  by (simp add: stream_line_def)

lemma unparsed_line:
  "parse (slice line 6) = None \<Longrightarrow> stream_line parse line cs = cs"
  by (simp add: stream_line_def)

lemma undecoded_line: "decode parse line = None \<Longrightarrow> stream_line parse line cs = cs"
  by (simp add: stream_line_decode)

subsection \<open>The queue of updaters\<close>

lemma stream_event_keeps:
  "stream_event d (cur, s, n) = Inr (cur', s', n') \<Longrightarrow>
     messages s' = messages s \<and> (n' = n \<or> n' = Suc n) \<and> (\<not> is_event ''done'' d \<longrightarrow> n' = n)"
  by (auto simp: stream_event_def is_event_def split: sum.splits if_splits)

lemma fallback_event_keeps:
  "fallback_event d (cur, s, n) = Inr (cur', s', n') \<Longrightarrow> messages s' = messages s"
  by (auto simp: fallback_event_def split: sum.splits if_splits)

lemma apply_stream_messages: "messages (fst (snd (apply_stream d cs))) = messages (fst (snd cs))"
  by (cases cs) (auto simp: apply_stream_def split: sum.splits dest: stream_event_keeps)

lemma apply_fallback_messages: "messages (fst (snd (apply_fallback d cs))) = messages (fst (snd cs))"
  by (cases cs) (auto simp: apply_fallback_def split: sum.splits dest: fallback_event_keeps)

lemma apply_stream_queued: "\<not> is_event ''done'' d \<Longrightarrow> queued (apply_stream d cs) = queued cs"
  by (cases cs) (auto simp: apply_stream_def queued_def split: sum.splits dest: stream_event_keeps)

lemma fold_messages:
  assumes "\<And>x cs. messages (fst (snd (f x cs))) = messages (fst (snd cs))"
  shows "messages (fst (snd (fold f xs cs))) = messages (fst (snd cs))"
  by (induction xs arbitrary: cs) (simp_all add: assms)

lemma fold_queued:
  "\<forall>d\<in>set evs. \<not> is_event ''done'' d \<Longrightarrow> queued (fold apply_stream evs cs) = queued cs"
  by (induction evs arbitrary: cs) (simp_all add: apply_stream_queued)

lemma paced_no_done:
  "\<forall>d\<in>set (concat evss). \<not> is_event ''done'' d \<Longrightarrow> queued cs = 0 \<Longrightarrow>
   paced evss cs = fold apply_stream (concat evss) cs"
proof (induction evss arbitrary: cs)
  case Nil
  then show ?case by (simp add: paced_Nil)
next
  case (Cons evs evss)
  from Cons.prems have a: "\<forall>d\<in>set evs. \<not> is_event ''done'' d"
    and b: "\<forall>d\<in>set (concat evss). \<not> is_event ''done'' d" by simp_all
  have q: "queued (fold apply_stream evs cs) = 0"
    using fold_queued[OF a] Cons.prems(2) by simp
  show ?case
    using Cons.IH[OF b q] by (simp add: paced_Cons render_none[OF q])
qed

lemma paced_quiet:
  "\<forall>d\<in>set (concat evss). quiet_event d \<Longrightarrow> render (paced evss cs) = render cs"
proof (induction evss arbitrary: cs)
  case Nil
  then show ?case by (simp add: paced_Nil)
next
  case (Cons evs evss)
  from Cons.prems have a: "\<forall>d\<in>set evs. quiet_event d"
    and b: "\<forall>d\<in>set (concat evss). quiet_event d" by simp_all
  show ?case
    using Cons.IH[OF b] by (simp add: paced_Cons fold_quiet[OF a] render_twice)
qed

lemma paced_done_last:
  assumes "concat evss = pre @ dn # post"
    and "\<forall>d\<in>set pre. \<not> is_event ''done'' d"
    and "\<forall>d\<in>set post. quiet_event d"
    and "queued cs = 0"
  shows "render (paced evss cs) = render (fold apply_stream (pre @ [dn]) cs)"
  using assms
proof (induction evss arbitrary: pre cs)
  case Nil
  then show ?case by simp
next
  case (Cons evs evss)
  from Cons.prems(1) have "evs @ concat evss = pre @ dn # post" by simp
  then obtain us where
    "(evs = pre @ us \<and> us @ concat evss = dn # post) \<or>
     (evs @ us = pre \<and> concat evss = us @ dn # post)"
    by (auto simp: append_eq_append_conv2)
  then consider
    (before) us' where "evs @ us' = pre" "concat evss = us' @ dn # post"
    | (within) us' where "evs = pre @ dn # us'" "us' @ concat evss = post"
  proof
    assume a: "evs = pre @ us \<and> us @ concat evss = dn # post"
    show ?thesis
    proof (cases us)
      case Nil
      with a have "evs @ [] = pre" "concat evss = [] @ dn # post" by simp_all
      then show ?thesis by (rule before)
    next
      case (Cons u us')
      with a have "evs = pre @ dn # us'" "us' @ concat evss = post" by simp_all
      then show ?thesis by (rule within)
    qed
  next
    assume "evs @ us = pre \<and> concat evss = us @ dn # post"
    then show ?thesis using before by blast
  qed
  then show ?case
  proof cases
    case before
    from before(1) Cons.prems(2) have a: "\<forall>d\<in>set evs. \<not> is_event ''done'' d"
      and b: "\<forall>d\<in>set us'. \<not> is_event ''done'' d" by auto
    have q: "queued (fold apply_stream evs cs) = 0"
      using fold_queued[OF a] Cons.prems(4) by simp
    have "render (paced evss (fold apply_stream evs cs)) =
          render (fold apply_stream (us' @ [dn]) (fold apply_stream evs cs))"
      by (rule Cons.IH[OF before(2) b Cons.prems(3) q])
    then show ?thesis
      using before(1) by (auto simp: paced_Cons render_none[OF q])
  next
    case within
    from within(2) Cons.prems(3) have a: "\<forall>d\<in>set us'. quiet_event d"
      and b: "\<forall>d\<in>set (concat evss). quiet_event d" by auto
    have "fold apply_stream evs cs = fold apply_stream (pre @ [dn]) cs"
      using fold_quiet[OF a] by (simp add: within(1))
    then show ?thesis
      by (simp add: paced_Cons paced_quiet[OF b] render_twice)
  qed
qed


subsection \<open>The send as a whole\<close>

lemma sendMessage_started:
  assumes "send_text arg s = Some t" "trim t \<noteq> []"
  shows "sendMessage parse arg net s =
     Inr (send_result (try_block parse net (new_streaming_msg,
               s\<lparr>messages := messages s @ [UserMessage t], inputMessage := [],
                 isLoading := True, streamingMessage := Some new_streaming_msg,
                 requests := requests s @ [PostChatStream t False]\<rparr>, 0)))"
  using assms by (cases arg) (simp_all add: sendMessage_def send_text_def send_result_def)

lemma sendMessage_total:
  "arg \<noteq> ArgObject \<Longrightarrow> sendMessage parse arg net s \<noteq> Inl e"
  by (cases arg) (simp_all add: sendMessage_def Let_def)

lemma send_result_Returned:
  "send_result (Returned cs) =
     (fst (snd (render cs)))\<lparr>isLoading := False\<rparr>"
  by (cases cs) (simp add: send_result_def render_def finally_block_def)

lemma send_result_Threw:
  "send_result (Threw e cs) =
     (fst (snd (render cs)))\<lparr>isLoading := False, streamingMessage := None,
        toasts := toasts (fst (snd cs)) @ [ToastError ''Unable to get response. Please try again.'']\<rparr>"
  by (cases cs) (simp add: send_result_def render_def finally_block_def catch_block_def)

lemma text_event_not_done:
  "text_event ''thinking'' d \<or> text_event ''response'' d \<Longrightarrow> \<not> is_event ''done'' d"
  by (auto simp: text_event_def is_event_def)

lemma send_stream_done_last:
  assumes "stream_events parse (concat bursts) = pre @ dn # post"
    and "\<forall>d\<in>set pre. \<not> is_event ''done'' d"
    and "\<forall>d\<in>set post. quiet_event d"
  shows "send_result (try_block parse (ReaderStream bursts True) (cur, s, 0)) =
         send_result (Returned (fold apply_stream (pre @ [dn]) (cur, s, 0)))"
proof -
  have "concat (map (stream_events parse) bursts) = pre @ dn # post"
    by (simp add: stream_events_concat assms(1))
  then have "render (paced (map (stream_events parse) bursts) (cur, s, 0)) =
             render (fold apply_stream (pre @ [dn]) (cur, s, 0))"
    using assms(2,3) by (rule paced_done_last) (simp add: queued_def)
  then show ?thesis
    by (simp add: try_block_def read_loop_paced send_result_Returned)
qed

subsection \<open>What decoding leaves alone\<close>

lemma framed_refl: "framed cs cs"
  by (simp add: framed_def)

lemma framed_trans: "framed a b \<Longrightarrow> framed b c \<Longrightarrow> framed a c"
  unfolding framed_def
  by (metis (no_types, lifting) app_state.surjective app_state.update_convs(1,5) prefix_order.trans)

lemma framed_stream_event:
  "stream_event d (cur, s, n) = Inr cs' \<Longrightarrow> framed (cur, s, n) cs'"
  by (auto simp: stream_event_def framed_def split: sum.splits if_splits)

lemma framed_fallback_event:
  "fallback_event d (cur, s, n) = Inr cs' \<Longrightarrow> framed (cur, s, n) cs'"
  by (auto simp: fallback_event_def framed_def split: sum.splits if_splits)

lemma framed_apply_stream: "framed cs (apply_stream d cs)"
  by (cases cs) (auto simp: apply_stream_def framed_refl split: sum.splits dest: framed_stream_event)

lemma framed_apply_fallback: "framed cs (apply_fallback d cs)"
  by (cases cs) (auto simp: apply_fallback_def framed_refl split: sum.splits dest: framed_fallback_event)

lemma framed_render: "framed cs (render cs)"
  by (cases cs) (simp add: render_def framed_def)

lemma framed_fold:
  assumes "\<And>x cs. framed cs (f x cs)"
  shows "framed cs (fold f xs cs)"
proof (induction xs arbitrary: cs)
  case Nil
  then show ?case by (simp add: framed_refl)
next
  case (Cons x xs)
  have "framed cs (f x cs)" by (rule assms)
  then show ?case using Cons.IH[of "f x cs"] by (auto intro: framed_trans)
qed

lemma framed_paced: "framed cs (paced evss cs)"
  unfolding paced_def
proof (rule framed_fold)
  fix evs cs
  have "framed cs (fold apply_stream evs cs)"
    by (rule framed_fold) (rule framed_apply_stream)
  then show "framed cs (render (fold apply_stream evs cs))"
    using framed_render by (rule framed_trans)
qed


lemma framed_try_block: "framed cs (outcome (try_block parse net cs))"
proof (cases net)
  case (ReaderStream bursts ok)
  then show ?thesis by (simp add: try_block_def read_loop_paced framed_paced)
next
  case (NoReader full)
  have "framed cs (fold apply_fallback evs cs)" for evs
    by (rule framed_fold) (rule framed_apply_fallback)
  then show ?thesis using NoReader
    by (cases full) (simp_all add: try_block_def fold_fallback_line framed_refl)
qed (simp_all add: try_block_def framed_refl)

lemma framed_send_result:
  assumes "framed cs (outcome r)"
  shows "prefix (messages (fst (snd cs))) (messages (send_result r))"
    and "isLoading (send_result r) = False"
    and "inputMessage (send_result r) = inputMessage (fst (snd cs))"
    and "requests (send_result r) = requests (fst (snd cs))"
proof -
  obtain cur s n where o: "outcome r = (cur, s, n)" by (cases "outcome r")
  from assms o have f: "s = (fst (snd cs))\<lparr>streamingMessage := streamingMessage s,
        messages := messages s\<rparr>" and p: "prefix (messages (fst (snd cs))) (messages s)"
    by (simp_all add: framed_def)
  have i: "inputMessage s = inputMessage (fst (snd cs))" "requests s = requests (fst (snd cs))"
    by (subst f, simp)+
  show "prefix (messages (fst (snd cs))) (messages (send_result r))"
    using p o by (cases r) (auto simp: send_result_def render_def finally_block_def catch_block_def
        intro: prefix_order.trans)
  show "isLoading (send_result r) = False"
    using o by (cases r) (auto simp: send_result_def render_def finally_block_def catch_block_def)
  show "inputMessage (send_result r) = inputMessage (fst (snd cs))"
    using o i by (cases r) (auto simp: send_result_def render_def finally_block_def catch_block_def)
  show "requests (send_result r) = requests (fst (snd cs))"
    using o i by (cases r) (auto simp: send_result_def render_def finally_block_def catch_block_def)
qed

lemma threw_send_result:
  assumes "framed cs (cur, s, n)"
  shows "toasts (send_result (Threw e (cur, s, n))) =
           toasts (fst (snd cs)) @ [ToastError ''Unable to get response. Please try again.'']"
    and "streamingMessage (send_result (Threw e (cur, s, n))) = None"
proof -
  from assms have f: "s = (fst (snd cs))\<lparr>streamingMessage := streamingMessage s,
        messages := messages s\<rparr>"
    by (simp add: framed_def)
  have t: "toasts s = toasts (fst (snd cs))" by (subst f, simp)
  show "toasts (send_result (Threw e (cur, s, n))) =
           toasts (fst (snd cs)) @ [ToastError ''Unable to get response. Please try again.'']"
    by (simp add: send_result_def render_def finally_block_def catch_block_def t)
  show "streamingMessage (send_result (Threw e (cur, s, n))) = None"
    by (simp add: send_result_def render_def finally_block_def catch_block_def)
qed

lemma sendMessage_prefix:
  "prefix (messages s) (messages (settle s (sendMessage parse arg net s)))"
proof (cases "send_text arg s")
  case None
  then show ?thesis by (cases arg) (simp_all add: send_text_def sendMessage_def settle_def)
next
  case (Some t)
  show ?thesis
  proof (cases "trim t = []")
    case True
    then show ?thesis using Some
      by (cases arg) (simp_all add: send_text_def sendMessage_def settle_def)
  next
    case False
    let ?s1 = "s\<lparr>messages := messages s @ [UserMessage t], inputMessage := [],
                 isLoading := True, streamingMessage := Some new_streaming_msg,
                 requests := requests s @ [PostChatStream t False]\<rparr>"
    let ?cs = "(new_streaming_msg, ?s1, 0::nat)"
    have "prefix (messages (fst (snd ?cs))) (messages (send_result (try_block parse net ?cs)))"
      by (rule framed_send_result(1)) (rule framed_try_block)
    moreover have "prefix (messages s) (messages (fst (snd ?cs)))" by simp
    ultimately have "prefix (messages s) (messages (send_result (try_block parse net ?cs)))"
      by (rule prefix_order.trans[rotated])
    then show ?thesis
      by (simp add: sendMessage_started[OF Some False] settle_def)
  qed
qed

lemma threw_no_done:
  assumes "\<forall>d\<in>set (stream_events parse (concat bursts)). \<not> is_event ''done'' d"
  shows "send_result (try_block parse (ReaderStream bursts False) (cur, s, 0)) =
     s\<lparr>isLoading := False, streamingMessage := None,
       toasts := toasts s @ [ToastError ''Unable to get response. Please try again.'']\<rparr>"
proof -
  let ?E = "concat (map (stream_events parse) bursts)"
  let ?out = "fold apply_stream ?E (cur, s, 0)"
  from assms have nd: "\<forall>d\<in>set ?E. \<not> is_event ''done'' d"
    by (simp only: stream_events_concat)
  have p: "paced (map (stream_events parse) bursts) (cur, s, 0) = ?out"
    using nd by (rule paced_no_done) (simp add: queued_def)
  have q: "queued ?out = 0" using fold_queued[OF nd, of "(cur, s, 0)"] by (simp add: queued_def)
  have m: "messages (fst (snd ?out)) = messages s"
    using fold_messages[of apply_stream ?E "(cur, s, 0)"] apply_stream_messages by simp
  have "framed (cur, s, 0) ?out" by (rule framed_fold) (rule framed_apply_stream)
  then have f: "fst (snd ?out) = s\<lparr>streamingMessage := streamingMessage (fst (snd ?out)),
        messages := messages s\<rparr>"
    by (simp add: framed_def m)
  have "send_result (Threw NetworkError ?out) =
     (fst (snd ?out))\<lparr>isLoading := False, streamingMessage := None,
        toasts := toasts (fst (snd ?out)) @ [ToastError ''Unable to get response. Please try again.'']\<rparr>"
    by (simp add: send_result_Threw render_none[OF q])
  also have "\<dots> = s\<lparr>isLoading := False, streamingMessage := None,
       toasts := toasts s @ [ToastError ''Unable to get response. Please try again.'']\<rparr>"
    by (subst (1 2) f) simp
  finally show ?thesis
    by (simp add: try_block_def read_loop_paced p)
qed

subsection \<open>Counting the Messages\<close>

lemma apply_unloggable: "\<not> loggable d \<Longrightarrow> apply_stream d cs = cs"
  by (cases cs) (auto simp: apply_stream_def stream_event_def loggable_def split: sum.splits)

lemma total_apply:
  "total (apply_stream d cs) = total cs + (if is_event ''done'' d \<and> loggable d then 1 else 0)"
proof (cases "is_event ''done'' d")
  case False
  then show ?thesis
    by (simp add: total_def apply_stream_messages apply_stream_queued)
next
  case True
  show ?thesis
  proof (cases "loggable d")
    case False
    then show ?thesis by (simp add: apply_unloggable)
  next
    case l: True
    obtain cur s n where cs: "cs = (cur, s, n)" by (cases cs)
    show ?thesis
      by (simp add: cs apply_done[OF True l] total_def queued_def True l)
  qed
qed

lemma total_fold: "total (fold apply_stream evs cs) = total cs + done_count evs"
  by (induction evs arbitrary: cs) (simp_all add: total_apply done_count_def)

lemma total_render: "total (render cs) = total cs"
  by (cases cs) (simp add: total_def render_def queued_def)

lemma total_paced: "total (paced evss cs) = total cs + done_count (concat evss)"
  by (induction evss arbitrary: cs)
     (simp_all add: paced_Nil paced_Cons total_render total_fold done_count_def)

lemma length_send_result:
  "length (messages (send_result r)) = total (outcome r)"
proof -
  obtain cur s n where o: "outcome r = (cur, s, n)" by (cases "outcome r")
  then show ?thesis
    by (cases r) (auto simp: send_result_def render_def finally_block_def catch_block_def
        total_def queued_def)
qed

subsection \<open>Trimming\<close>

lemma trim_Nil_iff: "trim t = [] \<longleftrightarrow> list_all js_whitespace t"
proof -
  have "trim t = [] \<longleftrightarrow> (\<forall>c\<in>set (dropWhile js_whitespace t). js_whitespace c)"
    by (simp add: trim_def dropWhile_eq_Nil_conv)
  also have "\<dots> \<longleftrightarrow> dropWhile js_whitespace t = []"
  proof
    assume a: "\<forall>c\<in>set (dropWhile js_whitespace t). js_whitespace c"
    show "dropWhile js_whitespace t = []"
    proof (rule ccontr)
      assume n: "dropWhile js_whitespace t \<noteq> []"
      then have "\<not> js_whitespace (hd (dropWhile js_whitespace t))" by (rule hd_dropWhile)
      moreover have "hd (dropWhile js_whitespace t) \<in> set (dropWhile js_whitespace t)"
        using n by simp
      ultimately show False using a by blast
    qed
  next
    assume e: "dropWhile js_whitespace t = []"
    show "\<forall>c\<in>set (dropWhile js_whitespace t). js_whitespace c"
      unfolding e by simp
  qed
  also have "\<dots> \<longleftrightarrow> list_all js_whitespace t"
    by (simp add: dropWhile_eq_Nil_conv list_all_iff)
  finally show ?thesis .
qed

subsection \<open>Equations for evaluating the examples\<close>

lemmas parse_eval = example_parse_def json_parse_table_def
lemmas line_eval = data_line_def decode_def startsWith_def slice_def stream_events_def map_filter_simps
lemmas event_eval = is_event_def text_event_def text_content_def loggable_def log_content_def
  quiet_event_def contents_of_def field_of_def
lemmas trim_eval = trim_def js_whitespace_def
lemmas send_eval = initial_state_def sendMessage_def try_block_def stream_chunk_def
  stream_line_def fallback_line_def fallback_event_def stream_event_def add_text_def
  finalize_def finally_block_def catch_block_def new_streaming_msg_def render_def

section \<open>Properties stated by the specification\<close>

subsection \<open>C1: the message a stream of text events ends in\<close>

text \<open>
  C1, as the code has it. Let the events the streaming loop decodes be \<open>thinking\<close> and
  \<open>response\<close> events with string contents, followed by one \<open>done\<close> event whose
  \<open>content\<close> is absent, \<open>null\<close> or a string. Then, however the chunks are spread over
  bursts, the send appends, after the user's message, one assistant Message whose
  \<open>content\<close> is the concatenation of the \<open>response\<close> contents in arrival order and whose
  \<open>thinking\<close> is the concatenation of the \<open>thinking\<close> contents when that text is not
  empty, and \<open>null\<close> when it is empty; the draft is gone and the loading flag is
  cleared.
\<close>

theorem stream_done_message:
  assumes "trim text \<noteq> []"
    and "stream_events parse (concat bursts) = evs @ [dn]"
    and "\<forall>d\<in>set evs. text_event ''thinking'' d \<or> text_event ''response'' d"
    and "is_event ''done'' dn" and "loggable dn"
  shows "sendMessage parse (ArgString text) (ReaderStream bursts True) s =
     Inr (s\<lparr>messages := messages s @ [UserMessage text,
            AssistantMessage (contents_of ''response'' evs)
              (if contents_of ''thinking'' evs = [] then None
               else Some (contents_of ''thinking'' evs))
              (Some JNull) (Some JNull) (Some (JBool False))],
          inputMessage := [], isLoading := False, streamingMessage := None,
          requests := requests s @ [PostChatStream text False]\<rparr>)"
proof -
  have t: "send_text (ArgString text) s = Some text" by (simp add: send_text_def)
  have nd: "\<forall>d\<in>set evs. \<not> is_event ''done'' d"
    using assms(3) text_event_not_done by blast
  have e: "stream_events parse (concat bursts) = evs @ dn # []" using assms(2) by simp
  show ?thesis
    by (simp add: sendMessage_started[OF t assms(1)] send_stream_done_last[OF e nd]
        send_result_Returned fold_text_events[OF assms(3)] apply_done[OF assms(4) assms(5)]
        render_def finalize_def new_streaming_msg_def)
qed

text \<open>
  The theorem at one stream: a \<open>thinking\<close> event, the two \<open>response\<close> events of the
  specification's example in one burst, and \<open>done\<close>.
\<close>

theorem stream_done_message_witness:
  \<open>sendMessage example_parse (ArgString ''Hello'')
     (ReaderStream [[data_line ''{"type":"thinking","content":"Rest matters."}''],
                    [data_line ''{"type":"response","content":"Hi"}'',
                     data_line ''{"type":"response","content":" there"}''],
                    [data_line ''{"type":"done"}'']] True) initial_state =
   Inr (initial_state\<lparr>messages := [UserMessage ''Hello'',
          AssistantMessage ''Hi there'' (Some ''Rest matters.'') (Some JNull) (Some JNull)
            (Some (JBool False))],
        requests := [PostChatStream ''Hello'' False]\<rparr>)\<close>
proof -
  let ?bursts = \<open>[[data_line ''{"type":"thinking","content":"Rest matters."}''],
                    [data_line ''{"type":"response","content":"Hi"}'',
                     data_line ''{"type":"response","content":" there"}''],
                    [data_line ''{"type":"done"}'']]\<close>
  let ?evs = "[JObj [(''type'', JStr ''thinking''), (''content'', JStr ''Rest matters.'')],
               JObj [(''type'', JStr ''response''), (''content'', JStr ''Hi'')],
               JObj [(''type'', JStr ''response''), (''content'', JStr '' there'')]]"
  let ?dn = "JObj [(''type'', JStr ''done'')]"
  have h1: "trim ''Hello'' \<noteq> []" by (simp add: trim_eval)
  have h2: "stream_events example_parse (concat ?bursts) = ?evs @ [?dn]"
    by (simp add: line_eval parse_eval)
  have h3: "\<forall>d\<in>set ?evs. text_event ''thinking'' d \<or> text_event ''response'' d"
    by (simp add: event_eval)
  have h4: "is_event ''done'' ?dn" by (simp add: event_eval)
  have h5: "loggable ?dn" by (simp add: event_eval)
  show ?thesis
    using stream_done_message[OF h1 h2 h3 h4 h5, of initial_state]
    by (simp add: event_eval initial_state_def)
qed

text \<open>
  C1 as it is written fails in two places. Where a \<open>thinking\<close> event arrives and the
  thinking text is empty, the claim gives the Message the empty string and the code
  gives it \<open>null\<close>. And a \<open>done\<close> event whose content is a number makes the log line
  throw: the event is skipped and no Message is appended.
\<close>

theorem empty_thinking_counterexample:
  \<open>text_event ''thinking'' (hd (stream_events example_parse
       [data_line ''{"type":"thinking","content":""}'', data_line ''{"type":"done"}''])) \<and>
   sendMessage example_parse (ArgString ''Hello'')
     (ReaderStream [[data_line ''{"type":"thinking","content":""}''],
                    [data_line ''{"type":"done"}'']] True) initial_state =
   Inr (initial_state\<lparr>messages := [UserMessage ''Hello'',
          AssistantMessage [] None (Some JNull) (Some JNull) (Some (JBool False))],
        requests := [PostChatStream ''Hello'' False]\<rparr>) \<and>
   is_event ''done'' (last (stream_events example_parse
       [data_line ''{"type":"response","content":"Hi"}'', data_line ''{"type":"done","content":7}''])) \<and>
   sendMessage example_parse (ArgString ''Hello'')
     (ReaderStream [[data_line ''{"type":"response","content":"Hi"}''],
                    [data_line ''{"type":"done","content":7}'']] True) initial_state =
   Inr (initial_state\<lparr>messages := [UserMessage ''Hello''],
        streamingMessage := Some (new_streaming_msg\<lparr>content := ''Hi''\<rparr>),
        requests := [PostChatStream ''Hello'' False]\<rparr>)\<close>
  by (simp add: line_eval parse_eval event_eval trim_eval send_eval)

subsection \<open>C2: what \<open>done\<close> ends\<close>




subsection \<open>C3: the fallback and the streaming loop\<close>




subsection \<open>C4: a send that throws\<close>

text \<open>
  C4, as the code has it. Take a send that gets past the guard, with the text passed or
  taken from the input box. When an error is thrown before any \<open>done\<close> event is decoded
  (\<open>fetch\<close> rejects, the response is not OK, no reader can be had and reading the text
  rejects too, or a \<open>read\<close> rejects in mid-stream), the send shows the error toast,
  sets the draft to \<open>null\<close> and leaves the transcript as it was with the user's message
  appended and nothing else: what the draft held is dropped. When a \<open>read\<close> rejects at
  any point of the stream, the toast is shown and the draft is \<open>null\<close> all the same, and
  the transcript keeps what it had and the user's message, followed by one Message for
  each \<open>done\<close> event that was decoded and not skipped. And whatever the network does,
  the send ends with the loading flag cleared.
\<close>

theorem send_error_and_loading:
  assumes "send_text arg s = Some text" and "trim text \<noteq> []"
  shows "(net = FetchRejected \<or> net = ResponseNotOk \<or> net = NoReader None \<or>
          (net = ReaderStream bursts False \<and>
             (\<forall>d\<in>set (stream_events parse (concat bursts)). \<not> is_event ''done'' d)) \<longrightarrow>
      sendMessage parse arg net s =
        Inr (s\<lparr>messages := messages s @ [UserMessage text], inputMessage := [],
              isLoading := False, streamingMessage := None,
              toasts := toasts s @ [ToastError ''Unable to get response. Please try again.''],
              requests := requests s @ [PostChatStream text False]\<rparr>)) \<and>
    (net = ReaderStream bursts False \<longrightarrow>
      (\<exists>s'. sendMessage parse arg net s = Inr s' \<and>
         toasts s' = toasts s @ [ToastError ''Unable to get response. Please try again.''] \<and>
         streamingMessage s' = None \<and> \<not> isLoading s' \<and>
         prefix (messages s @ [UserMessage text]) (messages s') \<and>
         length (messages s') =
           length (messages s) + 1 + done_count (stream_events parse (concat bursts)))) \<and>
    (\<exists>s'. sendMessage parse arg net s = Inr s' \<and> \<not> isLoading s')"
proof (intro conjI impI)
  let ?s1 = "s\<lparr>messages := messages s @ [UserMessage text], inputMessage := [],
                 isLoading := True, streamingMessage := Some new_streaming_msg,
                 requests := requests s @ [PostChatStream text False]\<rparr>"
  let ?cs = "(new_streaming_msg, ?s1, 0::nat)"
  note st = sendMessage_started[OF assms]
  note fr = framed_try_block[of ?cs parse net]
  show "\<exists>s'. sendMessage parse arg net s = Inr s' \<and> \<not> isLoading s'"
    using framed_send_result(2)[OF fr] by (simp add: st)
  {
    assume "net = FetchRejected \<or> net = ResponseNotOk \<or> net = NoReader None \<or>
          (net = ReaderStream bursts False \<and>
             (\<forall>d\<in>set (stream_events parse (concat bursts)). \<not> is_event ''done'' d))"
    then show "sendMessage parse arg net s =
        Inr (s\<lparr>messages := messages s @ [UserMessage text], inputMessage := [],
              isLoading := False, streamingMessage := None,
              toasts := toasts s @ [ToastError ''Unable to get response. Please try again.''],
              requests := requests s @ [PostChatStream text False]\<rparr>)"
    proof (elim disjE conjE)
      assume "net = ReaderStream bursts False"
        and "\<forall>d\<in>set (stream_events parse (concat bursts)). \<not> is_event ''done'' d"
      then show ?thesis by (simp add: st threw_no_done)
    qed (simp_all add: st try_block_def send_result_def render_def catch_block_def finally_block_def)
  }
  {
    assume n: "net = ReaderStream bursts False"
    obtain cur s2 k where o: "paced (map (stream_events parse) bursts) ?cs = (cur, s2, k)"
      by (cases "paced (map (stream_events parse) bursts) ?cs")
    have r: "try_block parse net ?cs = Threw NetworkError (cur, s2, k)"
      by (simp add: n try_block_def read_loop_paced o)
    have f: "framed ?cs (cur, s2, k)" using fr by (simp add: r)
    have "total (cur, s2, k) = total ?cs + done_count (concat (map (stream_events parse) bursts))"
      using total_paced[of "map (stream_events parse) bursts" ?cs] by (simp add: o)
    then have l: "length (messages (send_result (Threw NetworkError (cur, s2, k)))) =
        length (messages s) + 1 + done_count (stream_events parse (concat bursts))"
      by (simp add: length_send_result stream_events_concat total_def queued_def)
    show "\<exists>s'. sendMessage parse arg net s = Inr s' \<and>
         toasts s' = toasts s @ [ToastError ''Unable to get response. Please try again.''] \<and>
         streamingMessage s' = None \<and> \<not> isLoading s' \<and>
         prefix (messages s @ [UserMessage text]) (messages s') \<and>
         length (messages s') =
           length (messages s) + 1 + done_count (stream_events parse (concat bursts))"
      using threw_send_result[OF f, of NetworkError] framed_send_result(1,2)[OF fr] l
      by (simp add: st r)
  }
qed

text \<open>
  The theorem at the specification's example, where \<open>fetch\<close> rejects, and at a stream
  that breaks after two \<open>response\<close> events: the transcript holds an earlier message, and
  the text comes from the input box.
\<close>

theorem send_error_and_loading_witness:
  \<open>sendMessage example_parse ArgUndefined FetchRejected
     (initial_state\<lparr>messages := [UserMessage ''Hi''], inputMessage := ''Hello''\<rparr>) =
     Inr (initial_state\<lparr>messages := [UserMessage ''Hi'', UserMessage ''Hello''],
       toasts := [ToastError ''Unable to get response. Please try again.''],
       requests := [PostChatStream ''Hello'' False]\<rparr>) \<and>
   sendMessage example_parse ArgUndefined
     (ReaderStream [[data_line ''{"type":"response","content":"Hi"}''],
                    [data_line ''{"type":"response","content":" there"}'']] False)
     (initial_state\<lparr>messages := [UserMessage ''Hi''], inputMessage := ''Hello''\<rparr>) =
     Inr (initial_state\<lparr>messages := [UserMessage ''Hi'', UserMessage ''Hello''],
       toasts := [ToastError ''Unable to get response. Please try again.''],
       requests := [PostChatStream ''Hello'' False]\<rparr>)\<close>
proof -
  let ?s = "initial_state\<lparr>messages := [UserMessage ''Hi''], inputMessage := ''Hello''\<rparr>"
  let ?bursts = \<open>[[data_line ''{"type":"response","content":"Hi"}''],
                    [data_line ''{"type":"response","content":" there"}'']]\<close>
  have h1: "send_text ArgUndefined ?s = Some ''Hello''" by (simp add: send_text_def)
  have h2: "trim ''Hello'' \<noteq> []" by (simp add: trim_eval)
  have h3: "\<forall>d\<in>set (stream_events example_parse (concat ?bursts)). \<not> is_event ''done'' d"
    by (simp add: line_eval parse_eval event_eval)
  have p1: "sendMessage example_parse ArgUndefined FetchRejected ?s =
      Inr (?s\<lparr>messages := messages ?s @ [UserMessage ''Hello''], inputMessage := [],
              isLoading := False, streamingMessage := None,
              toasts := toasts ?s @ [ToastError ''Unable to get response. Please try again.''],
              requests := requests ?s @ [PostChatStream ''Hello'' False]\<rparr>)"
    using send_error_and_loading[OF h1 h2, where net = FetchRejected and parse = example_parse]
    by blast
  have p2: "sendMessage example_parse ArgUndefined (ReaderStream ?bursts False) ?s =
      Inr (?s\<lparr>messages := messages ?s @ [UserMessage ''Hello''], inputMessage := [],
              isLoading := False, streamingMessage := None,
              toasts := toasts ?s @ [ToastError ''Unable to get response. Please try again.''],
              requests := requests ?s @ [PostChatStream ''Hello'' False]\<rparr>)"
    using send_error_and_loading[OF h1 h2, where net = "ReaderStream ?bursts False"
        and parse = example_parse and bursts = ?bursts] h3
    by blast
  show ?thesis
    unfolding p1 p2 by (simp add: initial_state_def)
qed

text \<open>
  C4 as it is written fails where the stream breaks after \<open>done\<close>: an error is thrown
  and the toast is shown, and the transcript holds the assistant's Message after the
  user's.
\<close>

theorem error_after_done_counterexample:
  \<open>sendMessage example_parse (ArgString ''Hello'')
     (ReaderStream [[data_line ''{"type":"response","content":"Hi"}''],
                    [data_line ''{"type":"done"}'']] False) initial_state =
   Inr (initial_state\<lparr>messages := [UserMessage ''Hello'',
          AssistantMessage ''Hi'' None (Some JNull) (Some JNull) (Some (JBool False))],
        toasts := [ToastError ''Unable to get response. Please try again.''],
        requests := [PostChatStream ''Hello'' False]\<rparr>)\<close>
  by (simp add: line_eval parse_eval event_eval trim_eval send_eval)

subsection \<open>C5: line by line, chunk by chunk\<close>

text \<open>
  C5, as the code has it. (1) A line that does not begin with \<open>data: \<close> changes
  nothing. (2) A \<open>data: \<close> line whose payload does not parse changes nothing, and the
  lines after it are decoded as if it were not there. (3) The loop splits every chunk by
  itself and decodes the lines of the chunks in order; nothing is carried from one
  chunk into the next. (4) So a line cut by a chunk boundary reaches the decoder as two
  lines, \<open>f1\<close> at the end of one chunk and \<open>f2\<close> at the start of the next, and is
  never put together again: when neither piece is by itself a \<open>data: \<close> line with a
  payload that parses, both are dropped, and the stream has the effect of the other
  lines of the two chunks alone, whether React renders between the two chunks or not.
\<close>

theorem decoder_line_by_line:
  "(\<not> startsWith line ''data: '' \<longrightarrow> stream_line parse line cs = cs) \<and>
   (startsWith line ''data: '' \<and> parse (slice line 6) = None \<longrightarrow>
      stream_line parse line cs = cs \<and>
      fold (stream_line parse) (line # rest) cs = fold (stream_line parse) rest cs) \<and>
   read_loop parse bursts True cs =
      Returned (fold (\<lambda>burst cs. render (fold (stream_line parse) (concat (map split_nl burst)) cs))
        bursts cs) \<and>
   (CHR 0x0A \<notin> set f1 \<and> CHR 0x0A \<notin> set f2 \<and>
    decode parse f1 = None \<and> decode parse f2 = None \<longrightarrow>
      read_loop parse [[a @ CHR 0x0A # f1, f2 @ CHR 0x0A # b]] True cs =
        Returned (render (fold (stream_line parse) (split_nl a @ split_nl b) cs)) \<and>
      read_loop parse [[a @ CHR 0x0A # f1], [f2 @ CHR 0x0A # b]] True cs =
        Returned (render (fold (stream_line parse) (split_nl b)
          (render (fold (stream_line parse) (split_nl a) cs)))))"
proof (intro conjI impI)
  show "read_loop parse bursts True cs =
      Returned (fold (\<lambda>burst cs. render (fold (stream_line parse) (concat (map split_nl burst)) cs))
        bursts cs)"
    by (induction bursts arbitrary: cs) (simp_all add: fold_stream_chunk)
next
  assume h: "CHR 0x0A \<notin> set f1 \<and> CHR 0x0A \<notin> set f2 \<and>
    decode parse f1 = None \<and> decode parse f2 = None"
  then have n1: "CHR 0x0A \<notin> set f1" and n2: "CHR 0x0A \<notin> set f2"
    and d1: "decode parse f1 = None" and d2: "decode parse f2 = None"
    by simp_all
  have l1: "split_nl (a @ CHR 0x0A # f1) = split_nl a @ [f1]"
    by (rule split_nl_frag[OF n1])
  have l2: "split_nl (f2 @ CHR 0x0A # b) = [f2] @ split_nl b"
    using split_nl_append[of f2 b] by (simp add: split_nl_no_nl[OF n2])
  show "read_loop parse [[a @ CHR 0x0A # f1, f2 @ CHR 0x0A # b]] True cs =
        Returned (render (fold (stream_line parse) (split_nl a @ split_nl b) cs))"
    by (simp add: stream_chunk_def l1 l2 undecoded_line[OF d1] undecoded_line[OF d2])
  show "read_loop parse [[a @ CHR 0x0A # f1], [f2 @ CHR 0x0A # b]] True cs =
        Returned (render (fold (stream_line parse) (split_nl b)
          (render (fold (stream_line parse) (split_nl a) cs))))"
    by (simp add: stream_chunk_def l1 l2 undecoded_line[OF d1] undecoded_line[OF d2])
qed (simp_all add: not_data_line unparsed_line)

text \<open>
  The theorem at a line that is no \<open>data: \<close> line, at a payload that is not JSON, and
  at a \<open>done\<close> line cut in two between two \<open>response\<close> events: the whole line would
  decode to \<open>done\<close>, the pieces do not, and no Message is appended.
\<close>

theorem decoder_line_by_line_witness:
  \<open>\<not> startsWith ''event: message'' ''data: '' \<and>
   stream_line example_parse ''event: message'' (new_streaming_msg, initial_state, 0) =
     (new_streaming_msg, initial_state, 0) \<and>
   startsWith ''data: {"type":'' ''data: '' \<and> example_parse (slice ''data: {"type":'' 6) = None \<and>
   fold (stream_line example_parse) [''data: {"type":'', ''data: {"type":"done"}'']
       (new_streaming_msg, initial_state, 0) =
     fold (stream_line example_parse) [''data: {"type":"done"}''] (new_streaming_msg, initial_state, 0) \<and>
   decode example_parse ''data: {"type":"do'' = None \<and> decode example_parse ''ne"}'' = None \<and>
   decode example_parse (''data: {"type":"do'' @ ''ne"}'') = Some (JObj [(''type'', JStr ''done'')]) \<and>
   read_loop example_parse
       [[''data: {"type":"response","content":"Hi"}'' @ CHR 0x0A # ''data: {"type":"do'',
         ''ne"}'' @ CHR 0x0A # ''data: {"type":"response","content":" there"}'']]
       True (new_streaming_msg, initial_state, 0) =
     Returned (new_streaming_msg\<lparr>content := ''Hi there''\<rparr>,
       initial_state\<lparr>streamingMessage := Some (new_streaming_msg\<lparr>content := ''Hi there''\<rparr>)\<rparr>, 0) \<and>
   read_loop example_parse
       [[''data: {"type":"response","content":"Hi"}'' @ CHR 0x0A # ''data: {"type":"do''],
        [''ne"}'' @ CHR 0x0A # ''data: {"type":"response","content":" there"}'']]
       True (new_streaming_msg, initial_state, 0) =
     Returned (new_streaming_msg\<lparr>content := ''Hi there''\<rparr>,
       initial_state\<lparr>streamingMessage := Some (new_streaming_msg\<lparr>content := ''Hi there''\<rparr>)\<rparr>, 0)\<close>
proof -
  let ?cs = "(new_streaming_msg, initial_state, 0::nat)"
  have h1: \<open>\<not> startsWith ''event: message'' ''data: ''\<close> by (simp add: startsWith_def)
  have h2: \<open>startsWith ''data: {"type":'' ''data: '' \<and> example_parse (slice ''data: {"type":'' 6) = None\<close>
    by (simp add: startsWith_def slice_def parse_eval)
  have h3: \<open>CHR 0x0A \<notin> set ''data: {"type":"do'' \<and> CHR 0x0A \<notin> set ''ne"}'' \<and>
     decode example_parse ''data: {"type":"do'' = None \<and> decode example_parse ''ne"}'' = None\<close>
    by (simp add: line_eval parse_eval)
  have h4: \<open>decode example_parse (''data: {"type":"do'' @ ''ne"}'') = Some (JObj [(''type'', JStr ''done'')])\<close>
    by (simp add: line_eval parse_eval)
  have p1: \<open>stream_line example_parse ''event: message'' ?cs = ?cs\<close>
    using decoder_line_by_line[where parse = example_parse and cs = ?cs
        and line = \<open>''event: message''\<close>] h1 by blast
  have p2: \<open>fold (stream_line example_parse) [''data: {"type":'', ''data: {"type":"done"}''] ?cs =
     fold (stream_line example_parse) [''data: {"type":"done"}''] ?cs\<close>
    using decoder_line_by_line[where parse = example_parse and cs = ?cs
        and line = \<open>''data: {"type":''\<close> and rest = \<open>[''data: {"type":"done"}'']\<close>] h2 by blast
  note T = decoder_line_by_line[where parse = example_parse and cs = ?cs
        and ?f1.0 = \<open>''data: {"type":"do''\<close> and ?f2.0 = \<open>''ne"}''\<close>
        and a = \<open>''data: {"type":"response","content":"Hi"}''\<close>
        and b = \<open>''data: {"type":"response","content":" there"}''\<close>]
  have p3: \<open>read_loop example_parse
       [[''data: {"type":"response","content":"Hi"}'' @ CHR 0x0A # ''data: {"type":"do'',
         ''ne"}'' @ CHR 0x0A # ''data: {"type":"response","content":" there"}'']] True ?cs =
     Returned (render (fold (stream_line example_parse)
       (split_nl ''data: {"type":"response","content":"Hi"}'' @
        split_nl ''data: {"type":"response","content":" there"}'') ?cs))\<close>
    using T h3 by blast
  have p4: \<open>read_loop example_parse
       [[''data: {"type":"response","content":"Hi"}'' @ CHR 0x0A # ''data: {"type":"do''],
        [''ne"}'' @ CHR 0x0A # ''data: {"type":"response","content":" there"}'']] True ?cs =
     Returned (render (fold (stream_line example_parse)
        (split_nl ''data: {"type":"response","content":" there"}'')
        (render (fold (stream_line example_parse)
           (split_nl ''data: {"type":"response","content":"Hi"}'') ?cs))))\<close>
    using T h3 by blast
  have r: \<open>render (fold (stream_line example_parse)
       (split_nl ''data: {"type":"response","content":"Hi"}'' @
        split_nl ''data: {"type":"response","content":" there"}'') ?cs) =
      (new_streaming_msg\<lparr>content := ''Hi there''\<rparr>,
       initial_state\<lparr>streamingMessage := Some (new_streaming_msg\<lparr>content := ''Hi there''\<rparr>)\<rparr>, 0)\<close>
    by (simp add: line_eval parse_eval event_eval send_eval)
  have r': \<open>render (fold (stream_line example_parse)
        (split_nl ''data: {"type":"response","content":" there"}'')
        (render (fold (stream_line example_parse)
           (split_nl ''data: {"type":"response","content":"Hi"}'') ?cs))) =
      (new_streaming_msg\<lparr>content := ''Hi there''\<rparr>,
       initial_state\<lparr>streamingMessage := Some (new_streaming_msg\<lparr>content := ''Hi there''\<rparr>)\<rparr>, 0)\<close>
    by (simp add: line_eval parse_eval event_eval send_eval)
  show ?thesis
    using h1 h2 h3 h4 p1 p2 p3 p4 r r' by (simp only:) blast
qed

text \<open>
  C5 as it is written fails where a piece of a cut line is a complete \<open>data: \<close> line of
  its own. The line \<open>data: {"type":"done"}\<close> with a carriage return before its line feed
  is cut before the carriage return: the first piece is decoded, and the Message is
  appended.
\<close>

theorem complete_fragment_counterexample:
  \<open>read_loop example_parse [[''data: {"type":"done"}''], [[CHR 0x0D, CHR 0x0A]]] True
     (new_streaming_msg, initial_state\<lparr>streamingMessage := Some new_streaming_msg\<rparr>, 0) =
   Returned (new_streaming_msg, initial_state\<lparr>messages :=
     [AssistantMessage [] None (Some JNull) (Some JNull) (Some (JBool False))]\<rparr>, 0)\<close>
  by (simp add: line_eval parse_eval event_eval send_eval)

subsection \<open>C6: \<open>metadata\<close> overwrites\<close>




subsection \<open>C7: a blank send\<close>

text \<open>
  C7. When the text to send is empty or consists of white space only, whether it is
  passed to \<open>sendMessage\<close> or taken from the input box, the send returns the state as
  it was: no user message, no draft, no request, no toast, no flag changed.
\<close>

theorem blank_send_no_effect:
  "(list_all js_whitespace text \<longrightarrow> sendMessage parse (ArgString text) net s = Inr s) \<and>
   (list_all js_whitespace (inputMessage s) \<longrightarrow> sendMessage parse ArgUndefined net s = Inr s)"
  by (simp add: sendMessage_def trim_Nil_iff)

text \<open>The theorem at a text of a space, a tab and a line feed, and at the empty input box.\<close>

theorem blank_send_no_effect_witness:
  "list_all js_whitespace [CHR 0x20, CHR 0x09, CHR 0x0A] \<and>
   sendMessage example_parse (ArgString [CHR 0x20, CHR 0x09, CHR 0x0A])
     (ReaderStream [[data_line ''{\"type\":\"done\"}'']] True)
     (initial_state\<lparr>messages := [UserMessage ''Hello'']\<rparr>) =
     Inr (initial_state\<lparr>messages := [UserMessage ''Hello'']\<rparr>) \<and>
   list_all js_whitespace (inputMessage initial_state) \<and>
   sendMessage example_parse ArgUndefined FetchRejected initial_state = Inr initial_state"
proof -
  have h1: "list_all js_whitespace [CHR 0x20, CHR 0x09, CHR 0x0A]"
    by (simp add: js_whitespace_def)
  have h2: "list_all js_whitespace (inputMessage initial_state)"
    by (simp add: initial_state_def)
  show ?thesis
    using blank_send_no_effect[of "[CHR 0x20, CHR 0x09, CHR 0x0A]" example_parse
        "ReaderStream [[data_line ''{\"type\":\"done\"}'']] True"
        "initial_state\<lparr>messages := [UserMessage ''Hello'']\<rparr>"]
      blank_send_no_effect[of "[]" example_parse FetchRejected initial_state] h1 h2
    by simp
qed

subsection \<open>C8: the transcript is append-only\<close>

text \<open>
  C8. Every operation of the screen other than Clear (a send by button or key, a topic
  click, typing, the topic fetch; whatever the network answers) leaves the transcript it
  found as a prefix of the transcript it ends with: no Message is changed or removed.
  Clear, from any state, leaves the empty transcript and the draft \<open>null\<close>.
\<close>

theorem transcript_append_only:
  "(op \<noteq> OpClear \<longrightarrow> prefix (messages s) (messages (run_op parse op s))) \<and>
   messages (run_op parse OpClear s) = [] \<and> streamingMessage (run_op parse OpClear s) = None"
proof (intro conjI impI)
  assume "op \<noteq> OpClear"
  then show "prefix (messages s) (messages (run_op parse op s))"
  proof (cases op)
    case (OpSend net)
    then show ?thesis by (simp add: sendMessage_prefix)
  next
    case (OpKeyPress key shiftKey net)
    then show ?thesis
      using sendMessage_prefix[of s parse ArgUndefined net]
      by (simp add: handleKeyPress_def settle_def)
  next
    case (OpTopicClick tp net)
    then show ?thesis by (simp add: handleTopicClick_def sendMessage_prefix)
  next
    case (OpFetchTopics answer)
    then show ?thesis by (cases answer) (simp_all add: fetchWellnessTopics_def)
  qed simp_all
qed (simp_all add: clearChat_def)

text \<open>
  The theorem at a send that streams an answer into a transcript of one message, and at
  a Clear while a draft is shown.
\<close>

theorem transcript_append_only_witness:
  \<open>OpSend (ReaderStream [[data_line ''{"type":"response","content":"Hi"}''],
                          [data_line ''{"type":"done"}'']] True) \<noteq> OpClear \<and>
   run_op example_parse (OpSend (ReaderStream [[data_line ''{"type":"response","content":"Hi"}''],
                          [data_line ''{"type":"done"}'']] True))
     (initial_state\<lparr>messages := [UserMessage ''Hi''], inputMessage := ''Hello''\<rparr>) =
     initial_state\<lparr>messages := [UserMessage ''Hi'', UserMessage ''Hello'',
         AssistantMessage ''Hi'' None (Some JNull) (Some JNull) (Some (JBool False))],
       requests := [PostChatStream ''Hello'' False]\<rparr> \<and>
   prefix (messages (initial_state\<lparr>messages := [UserMessage ''Hi''], inputMessage := ''Hello''\<rparr>))
     (messages (run_op example_parse
        (OpSend (ReaderStream [[data_line ''{"type":"response","content":"Hi"}''],
                          [data_line ''{"type":"done"}'']] True))
        (initial_state\<lparr>messages := [UserMessage ''Hi''], inputMessage := ''Hello''\<rparr>))) \<and>
   messages (run_op example_parse OpClear
      (initial_state\<lparr>messages := [UserMessage ''Hi''],
         streamingMessage := Some new_streaming_msg\<rparr>)) = [] \<and>
   streamingMessage (run_op example_parse OpClear
      (initial_state\<lparr>messages := [UserMessage ''Hi''],
         streamingMessage := Some new_streaming_msg\<rparr>)) = None\<close>
proof -
  let ?op = \<open>OpSend (ReaderStream [[data_line ''{"type":"response","content":"Hi"}''],
                          [data_line ''{"type":"done"}'']] True)\<close>
  let ?s = "initial_state\<lparr>messages := [UserMessage ''Hi''], inputMessage := ''Hello''\<rparr>"
  have h: "?op \<noteq> OpClear" by simp
  have r: "run_op example_parse ?op ?s =
     initial_state\<lparr>messages := [UserMessage ''Hi'', UserMessage ''Hello'',
         AssistantMessage ''Hi'' None (Some JNull) (Some JNull) (Some (JBool False))],
       requests := [PostChatStream ''Hello'' False]\<rparr>"
    by (simp add: settle_def line_eval parse_eval event_eval trim_eval send_eval)
  show ?thesis
    using transcript_append_only[of ?op ?s example_parse]
      transcript_append_only[of OpClear "initial_state\<lparr>messages := [UserMessage ''Hi''],
         streamingMessage := Some new_streaming_msg\<rparr>" example_parse] h r
    by (simp only:) blast
qed

subsection \<open>C9: the static chat shell\<close>

text \<open>
  C9. A send of type \<open>text\<close> whose value is not blank appends the user's bubble, on the
  right, and registers one timer of 1000 milliseconds whose callback appends the fixed
  reply; when no other timer is pending, its running out leaves the transcript with the
  bubble and the reply appended, and there is no further timer to run out. A send of
  another type, or of a blank value, changes nothing. The shell has no effect but the
  messages and the timers: it makes no network call.
\<close>

theorem shell_send:
  "(type = ''text'' \<and> \<not> list_all js_whitespace val \<longrightarrow>
      handleSend type val s =
        s\<lparr>shell_messages := shell_messages s @ [\<lparr>msg_type = ''text'', msg_text = val, position = Some ''right''\<rparr>],
          timers := timers s @ [(1000, \<lparr>msg_type = ''text'',
             msg_text = ''Hello! I'm your health assistant. How can I help you today?'',
             position = None\<rparr>)]\<rparr> \<and>
      (timers s = [] \<longrightarrow>
         timer_fires (handleSend type val s) =
           s\<lparr>shell_messages := shell_messages s @
               [\<lparr>msg_type = ''text'', msg_text = val, position = Some ''right''\<rparr>,
                \<lparr>msg_type = ''text'',
                 msg_text = ''Hello! I'm your health assistant. How can I help you today?'',
                 position = None\<rparr>]\<rparr> \<and>
         timer_fires (timer_fires (handleSend type val s)) = timer_fires (handleSend type val s))) \<and>
   (type \<noteq> ''text'' \<or> list_all js_whitespace val \<longrightarrow> handleSend type val s = s)"
  by (auto simp: handleSend_def timer_fires_def trim_Nil_iff)

text \<open>The theorem at the value \<open>Hi\<close>, at a value of two spaces, and at the type \<open>image\<close>.\<close>

theorem shell_send_witness:
  "\<not> list_all js_whitespace ''Hi'' \<and>
   handleSend ''text'' ''Hi'' \<lparr>shell_messages = [], timers = []\<rparr> =
     \<lparr>shell_messages = [\<lparr>msg_type = ''text'', msg_text = ''Hi'', position = Some ''right''\<rparr>],
      timers = [(1000, \<lparr>msg_type = ''text'',
             msg_text = ''Hello! I'm your health assistant. How can I help you today?'',
             position = None\<rparr>)]\<rparr> \<and>
   timer_fires (handleSend ''text'' ''Hi'' \<lparr>shell_messages = [], timers = []\<rparr>) =
     \<lparr>shell_messages = [\<lparr>msg_type = ''text'', msg_text = ''Hi'', position = Some ''right''\<rparr>,
         \<lparr>msg_type = ''text'',
             msg_text = ''Hello! I'm your health assistant. How can I help you today?'',
             position = None\<rparr>],
      timers = []\<rparr> \<and>
   list_all js_whitespace ''  '' \<and>
   handleSend ''text'' ''  '' \<lparr>shell_messages = [], timers = []\<rparr> =
     \<lparr>shell_messages = [], timers = []\<rparr> \<and>
   handleSend ''image'' ''Hi'' \<lparr>shell_messages = [], timers = []\<rparr> =
     \<lparr>shell_messages = [], timers = []\<rparr>"
proof -
  let ?s = "\<lparr>shell_messages = [], timers = []\<rparr>"
  have h1: "\<not> list_all js_whitespace ''Hi''" by (simp add: js_whitespace_def)
  have h2: "list_all js_whitespace ''  ''" by (simp add: js_whitespace_def)
  have h3: "''image'' \<noteq> ''text''" by simp
  have h4: "timers ?s = []" by simp
  note a = shell_send[of "''text''" "''Hi''" ?s]
  note b = shell_send[of "''text''" "''  ''" ?s]
  note c = shell_send[of "''image''" "''Hi''" ?s]
  have p1: "handleSend ''text'' ''Hi'' ?s =
     \<lparr>shell_messages = [\<lparr>msg_type = ''text'', msg_text = ''Hi'', position = Some ''right''\<rparr>],
      timers = [(1000, \<lparr>msg_type = ''text'',
             msg_text = ''Hello! I'm your health assistant. How can I help you today?'',
             position = None\<rparr>)]\<rparr>"
    using a h1 by simp
  from a h1 h4 have "timer_fires (handleSend ''text'' ''Hi'' ?s) =
     ?s\<lparr>shell_messages := shell_messages ?s @
               [\<lparr>msg_type = ''text'', msg_text = ''Hi'', position = Some ''right''\<rparr>,
                \<lparr>msg_type = ''text'',
                 msg_text = ''Hello! I'm your health assistant. How can I help you today?'',
                 position = None\<rparr>]\<rparr>"
    by blast
  then have p2: "timer_fires (handleSend ''text'' ''Hi'' ?s) =
     \<lparr>shell_messages = [\<lparr>msg_type = ''text'', msg_text = ''Hi'', position = Some ''right''\<rparr>,
         \<lparr>msg_type = ''text'',
             msg_text = ''Hello! I'm your health assistant. How can I help you today?'',
             position = None\<rparr>],
      timers = []\<rparr>"
    by simp
  have p3: "handleSend ''text'' ''  '' ?s = ?s" using b h2 by blast
  have p4: "handleSend ''image'' ''Hi'' ?s = ?s" using c h3 by blast
  show ?thesis
    using h1 h2 p1 p2 p3 p4 by blast
qed

subsection \<open>C10: a click on a topic\<close>

text \<open>
  C10, as the code has it. For each of the six known topic ids the click calls
  \<open>sendMessage\<close> with the question mapped to it, which is not blank. For any other id:
  when the id names a member of \<open>Object.prototype\<close>, the lookup gives that member,
  \<open>trim\<close> cannot be called on it and the send throws a \<open>TypeError\<close> before any state is
  changed; otherwise the lookup gives \<open>undefined\<close>, the default parameter puts the
  current input text in its place, and the click is a send of the input box: no
  \<open>TypeError\<close> is thrown.
\<close>

theorem topic_click:
  "(topic_id tp \<in> {''nutrition'', ''exercise'', ''sleep'', ''stress'', ''hydration'', ''checkup''} \<longrightarrow>
      (\<exists>q. map_of topicQuestions (topic_id tp) = Some q \<and> trim q \<noteq> [] \<and>
           handleTopicClick parse tp net s = sendMessage parse (ArgString q) net s)) \<and>
   (topic_id tp \<notin> {''nutrition'', ''exercise'', ''sleep'', ''stress'', ''hydration'', ''checkup''} \<longrightarrow>
      (topic_id tp \<in> set object_prototype_keys \<longrightarrow> handleTopicClick parse tp net s = Inl TypeError) \<and>
      (topic_id tp \<notin> set object_prototype_keys \<longrightarrow>
         handleTopicClick parse tp net s = sendMessage parse ArgUndefined net s \<and>
         handleTopicClick parse tp net s \<noteq> Inl TypeError))"
proof (intro conjI impI)
  assume "topic_id tp \<in> {''nutrition'', ''exercise'', ''sleep'', ''stress'', ''hydration'', ''checkup''}"
  then show "\<exists>q. map_of topicQuestions (topic_id tp) = Some q \<and> trim q \<noteq> [] \<and>
           handleTopicClick parse tp net s = sendMessage parse (ArgString q) net s"
    by (auto simp: handleTopicClick_def topic_question_def topicQuestions_def trim_eval)
next
  assume a: "topic_id tp \<notin> {''nutrition'', ''exercise'', ''sleep'', ''stress'', ''hydration'', ''checkup''}"
  then have n: "map_of topicQuestions (topic_id tp) = None"
    by (simp add: topicQuestions_def)
  { assume "topic_id tp \<in> set object_prototype_keys"
    then show "handleTopicClick parse tp net s = Inl TypeError"
      by (simp add: handleTopicClick_def topic_question_def n sendMessage_def) }
  { assume "topic_id tp \<notin> set object_prototype_keys"
    then have q: "topic_question (topic_id tp) = ArgUndefined"
      by (simp add: topic_question_def n)
    show "handleTopicClick parse tp net s = sendMessage parse ArgUndefined net s"
      by (simp add: handleTopicClick_def q)
    show "handleTopicClick parse tp net s \<noteq> Inl TypeError"
      by (simp add: handleTopicClick_def q sendMessage_total) }
qed

text \<open>The theorem at the ids \<open>sleep\<close>, \<open>toString\<close> and \<open>fitness\<close>.\<close>

theorem topic_click_witness:
  "handleTopicClick example_parse \<lparr>topic_id = ''sleep'', icon = ''moon'', label = ''Sleep''\<rparr>
     FetchRejected initial_state =
     Inr (initial_state\<lparr>messages := [UserMessage ''What are good sleep hygiene practices?''],
        toasts := [ToastError ''Unable to get response. Please try again.''],
        requests := [PostChatStream ''What are good sleep hygiene practices?'' False]\<rparr>) \<and>
   handleTopicClick example_parse \<lparr>topic_id = ''toString'', icon = ''heart'', label = ''Text''\<rparr>
     FetchRejected (initial_state\<lparr>inputMessage := ''Hello''\<rparr>) = Inl TypeError \<and>
   handleTopicClick example_parse \<lparr>topic_id = ''fitness'', icon = ''activity'', label = ''Fitness''\<rparr>
     FetchRejected (initial_state\<lparr>inputMessage := ''Hello''\<rparr>) =
     sendMessage example_parse ArgUndefined FetchRejected (initial_state\<lparr>inputMessage := ''Hello''\<rparr>)"
proof -
  let ?six = "{''nutrition'', ''exercise'', ''sleep'', ''stress'', ''hydration'', ''checkup''}"
  let ?t1 = "\<lparr>topic_id = ''sleep'', icon = ''moon'', label = ''Sleep''\<rparr>"
  let ?t2 = "\<lparr>topic_id = ''toString'', icon = ''heart'', label = ''Text''\<rparr>"
  let ?t3 = "\<lparr>topic_id = ''fitness'', icon = ''activity'', label = ''Fitness''\<rparr>"
  let ?s = "initial_state\<lparr>inputMessage := ''Hello''\<rparr>"
  have h1: "topic_id ?t1 \<in> ?six" by simp
  have h2: "topic_id ?t2 \<notin> ?six \<and> topic_id ?t2 \<in> set object_prototype_keys"
    by (simp add: object_prototype_keys_def)
  have h3: "topic_id ?t3 \<notin> ?six \<and> topic_id ?t3 \<notin> set object_prototype_keys"
    by (simp add: object_prototype_keys_def)
  from topic_click[of ?t1 example_parse FetchRejected initial_state] h1
  obtain q where q: "map_of topicQuestions (topic_id ?t1) = Some q"
    and c: "handleTopicClick example_parse ?t1 FetchRejected initial_state =
            sendMessage example_parse (ArgString q) FetchRejected initial_state"
    by blast
  from q have "q = ''What are good sleep hygiene practices?''"
    by (simp add: topicQuestions_def)
  with c have p1: "handleTopicClick example_parse ?t1 FetchRejected initial_state =
     Inr (initial_state\<lparr>messages := [UserMessage ''What are good sleep hygiene practices?''],
        toasts := [ToastError ''Unable to get response. Please try again.''],
        requests := [PostChatStream ''What are good sleep hygiene practices?'' False]\<rparr>)"
    by (simp add: trim_eval send_eval)
  have p2: "handleTopicClick example_parse ?t2 FetchRejected ?s = Inl TypeError"
    using topic_click[of ?t2 example_parse FetchRejected ?s] h2 by blast
  have p3: "handleTopicClick example_parse ?t3 FetchRejected ?s =
     sendMessage example_parse ArgUndefined FetchRejected ?s"
    using topic_click[of ?t3 example_parse FetchRejected ?s] h3 by blast
  show ?thesis using p1 p2 p3 by blast
qed

text \<open>
  C10 as it is written fails at an unknown id: with \<open>Hello\<close> in the input box, a click
  on a topic \<open>fitness\<close> throws nothing and sends \<open>Hello\<close>; here \<open>fetch\<close> rejects.
\<close>

theorem unknown_topic_counterexample:
  "topic_id \<lparr>topic_id = ''fitness'', icon = ''activity'', label = ''Fitness''\<rparr>
     \<notin> {''nutrition'', ''exercise'', ''sleep'', ''stress'', ''hydration'', ''checkup''} \<and>
   handleTopicClick example_parse \<lparr>topic_id = ''fitness'', icon = ''activity'', label = ''Fitness''\<rparr>
     FetchRejected (initial_state\<lparr>inputMessage := ''Hello''\<rparr>) =
   Inr (initial_state\<lparr>messages := [UserMessage ''Hello''],
        toasts := [ToastError ''Unable to get response. Please try again.''],
        requests := [PostChatStream ''Hello'' False]\<rparr>)"
  by (simp add: handleTopicClick_def topic_question_def topicQuestions_def object_prototype_keys_def
      trim_eval send_eval)

subsection \<open>Two more runs of the decoder\<close>

text \<open>
  Two \<open>metadata\<close> events in one stream: the Message that \<open>done\<close> appends has the
  sources of the second, and the \<open>web_sources\<close> and \<open>web_searched\<close> of the first are gone.
\<close>

lemma metadata_twice_example:
  \<open>sendMessage example_parse (ArgString ''Hello'')
     (ReaderStream
        [[data_line ''{"type":"metadata","sources":["CDC"],"web_sources":[],"web_searched":true}''],
         [data_line ''{"type":"metadata","sources":["WHO"]}'',
          data_line ''{"type":"done"}'']] True) initial_state =
   Inr (initial_state\<lparr>messages := [UserMessage ''Hello'',
          AssistantMessage [] None (Some (JArr [JStr ''WHO''])) None None],
        requests := [PostChatStream ''Hello'' False]\<rparr>)\<close>
  by (simp add: line_eval parse_eval event_eval trim_eval send_eval)

text \<open>
  A \<open>response\<close> event whose content is a number: the log line of the streaming loop
  throws and the event is skipped; the fallback, which has no log line, appends the
  number's text.
\<close>

lemma number_content_example:
  "apply_stream (JObj [(''type'', JStr ''response''), (''content'', JNum ''7'')])
     (new_streaming_msg, initial_state, 0) = (new_streaming_msg, initial_state, 0) \<and>
   apply_fallback (JObj [(''type'', JStr ''response''), (''content'', JNum ''7'')])
     (new_streaming_msg, initial_state, 0) =
     (new_streaming_msg\<lparr>content := ''7''\<rparr>,
      initial_state\<lparr>streamingMessage := Some (new_streaming_msg\<lparr>content := ''7''\<rparr>)\<rparr>, 0)"
  by (simp add: apply_stream_def apply_fallback_def event_eval send_eval)

end
